theory Spec2Isabelle
  imports Main "HOL-Library.Word" "HOL-Library.AList" "HOL-Library.Char_ord"
    "HOL-Library.List_Lexorder"
begin

section \<open>The directory-backed blob store of store/fsdir.go\<close>

text \<open>
  The store keeps one blob per file of a directory, the file named by the decimal form of
  the blob's identifier, and a lock file \<open>.lock\<close> holding the process identifier of the
  owner. The functions of fsdir.go are embedded below one by one, over a model of the part
  of the Go standard library they call (\<open>strconv\<close>, \<open>path/filepath\<close>, \<open>os\<close>). The one
  function left out is \<open>setMeAsOwner\<close>, which nothing in the file calls.
\<close>

subsection \<open>Values\<close>

text \<open>
  Go's \<open>int\<close> on a 64-bit platform: a 64-bit two's complement integer. Addition wraps,
  \<open>sint\<close> reads the signed value.
\<close>

type_synonym go_int = "64 word"

text \<open>
  Modelled from the spec: the type \<open>ID\<close> is declared in another file of package store.
  fsdir.go converts it from \<open>int\<close> (\<open>ID(objectID)\<close>) and to \<open>int64\<close> (\<open>int64(id)\<close>),
  adds 1 to it and takes \<open>max\<close> of it, and the spec calls it an integer: it is taken to be
  a 64-bit signed integer.
\<close>

type_synonym ID = "64 word"

text \<open>
  Modelled from the spec: the constant \<open>NullID\<close> is declared in another file of package
  store; the spec calls it the zero/null identifier.
\<close>

definition NullID :: ID where
  "NullID = 0"

text \<open>
  Modelled from the spec: \<open>Blob\<close> is declared in another file of package store; fsdir.go
  converts it from and to \<open>[]byte\<close>. A HOL \<open>char\<close> is a byte, so a byte sequence and a Go
  string are both a \<open>string\<close>; the nil slice and the empty slice are both \<open>[]\<close>.
\<close>

type_synonym Blob = string

text \<open>
  Modelled from the spec: \<open>Item\<close> is declared in another file of package store; fsdir.go
  builds it as \<open>Item{ID: ..., Blob: ...}\<close>.
\<close>

datatype Item = Item (ID: ID) (Blob: Blob)

text \<open>The builtin \<open>max\<close> of Go on signed integers.\<close>

definition max_int :: "64 word \<Rightarrow> 64 word \<Rightarrow> 64 word" where
  "max_int a b = (if sint a < sint b then b else a)"

subsection \<open>Errors\<close>

datatype errno = ENOENT | EISDIR | ENOTDIR | ENOTEMPTY

datatype numerr = ErrSyntax | ErrRange

text \<open>
  The error values that reach fsdir.go. \<open>PathError op path errno\<close> is \<open>*fs.PathError\<close>,
  \<open>NumError func num err\<close> is \<open>*strconv.NumError\<close>, \<open>SkipDir\<close> and \<open>SkipAll\<close> are the
  sentinels of \<open>io/fs\<close>. \<open>ErrDifferentOwner\<close> is declared in fsdir.go.
  Modelled from the spec: \<open>ErrNotFound\<close> and \<open>ErrCorruptedContent\<close> are declared in another
  file of package store; fsdir.go builds them as \<open>ErrNotFound{ID: id}\<close> and
  \<open>ErrCorruptedContent{Name: path}\<close>.
  \<open>NilDirEntry\<close> stands for the panic of calling a method of a nil \<open>fs.DirEntry\<close>.
\<close>

datatype error =
    PathError string string errno
  | NumError string string numerr
  | ErrDifferentOwner go_int
  | ErrNotFound ID
  | ErrCorruptedContent string
  | SkipDir
  | SkipAll
  | NilDirEntry

text \<open>\<open>os.IsNotExist\<close>: the error is a path error whose cause is ENOENT.\<close>

fun IsNotExist :: "error option \<Rightarrow> bool" where
  "IsNotExist (Some (PathError _ _ ENOENT)) = True"
| "IsNotExist _ = False"

subsection \<open>strconv\<close>

text \<open>The value of a decimal digit: the byte minus the byte \<open>0\<close>, when that is at most 9.\<close>

definition digit_val :: "char \<Rightarrow> nat option" where
  "digit_val c =
    (let b = (of_char c :: nat)
     in if 48 \<le> b \<and> b \<le> 57 then Some (b - 48) else None)"

text \<open>
  The loop of \<open>strconv.ParseUint\<close> in base 10 with 64 bits: a byte that is no digit is a
  syntax error, a value that leaves \<open>uint64\<close> is a range error, whichever comes first.
\<close>

fun ParseUint_loop :: "string \<Rightarrow> nat \<Rightarrow> numerr + nat" where
  "ParseUint_loop [] n = Inr n"
| "ParseUint_loop (c # cs) n =
    (case digit_val c of
       None \<Rightarrow> Inl ErrSyntax
     | Some d \<Rightarrow>
         if n \<ge> (2 ^ 64 - 1) div 10 + 1 then Inl ErrRange
         else if n * 10 + d > 2 ^ 64 - 1 then Inl ErrRange
         else ParseUint_loop cs (n * 10 + d))"

definition ParseUint :: "string \<Rightarrow> numerr + nat" where
  "ParseUint s = (if s = [] then Inl ErrSyntax else ParseUint_loop s 0)"

text \<open>
  \<open>strconv.Atoi\<close>: an optional sign, then decimal digits, the value within \<open>int\<close>. The
  result is the pair Go returns: on a syntax error the value is 0, on a range error it is
  the nearest bound. (Go has a fast path for strings shorter than 19 bytes; it computes
  the same pair.)
\<close>

definition Atoi :: "string \<Rightarrow> go_int \<times> error option" where
  "Atoi s =
    (if s = [] then (0, Some (NumError ''Atoi'' s ErrSyntax))
     else
       let neg = (hd s = CHR ''-'');
           body = (if hd s = CHR ''+'' \<or> hd s = CHR ''-'' then tl s else s)
       in case ParseUint body of
            Inl ErrSyntax \<Rightarrow> (0, Some (NumError ''Atoi'' s ErrSyntax))
          | Inl ErrRange \<Rightarrow>
              (if neg then (word_of_int (- (2 ^ 63)), Some (NumError ''Atoi'' s ErrRange))
               else (word_of_int (2 ^ 63 - 1), Some (NumError ''Atoi'' s ErrRange)))
          | Inr un \<Rightarrow>
              if \<not> neg \<and> un \<ge> 2 ^ 63
                then (word_of_int (2 ^ 63 - 1), Some (NumError ''Atoi'' s ErrRange))
              else if neg \<and> un > 2 ^ 63
                then (word_of_int (- (2 ^ 63)), Some (NumError ''Atoi'' s ErrRange))
              else if neg then (word_of_int (- int un), None)
              else (word_of_int (int un), None))"

definition digit_char :: "nat \<Rightarrow> char" where
  "digit_char n = ''0123456789'' ! n"

fun FormatUint :: "nat \<Rightarrow> string" where
  "FormatUint n =
    (if n < 10 then [digit_char n] else FormatUint (n div 10) @ [digit_char (n mod 10)])"

declare FormatUint.simps [simp del]

text \<open>\<open>strconv.FormatInt(i, 10)\<close> of a signed 64-bit value.\<close>

definition FormatInt :: "64 word \<Rightarrow> string" where
  "FormatInt i =
    (if sint i < 0 then CHR ''-'' # FormatUint (nat (- sint i)) else FormatUint (nat (sint i)))"

subsection \<open>strings and path/filepath (Unix)\<close>

definition HasPrefix :: "string \<Rightarrow> string \<Rightarrow> bool" where
  "HasPrefix s p = (take (length p) s = p)"

text \<open>The elements of a path between its separators.\<close>

fun split_sep :: "string \<Rightarrow> string \<Rightarrow> string list" where
  "split_sep [] cur = [rev cur]"
| "split_sep (c # cs) cur =
    (if c = CHR ''/'' then rev cur # split_sep cs [] else split_sep cs (c # cur))"

fun join_sep :: "string list \<Rightarrow> string" where
  "join_sep [] = []"
| "join_sep [x] = x"
| "join_sep (x # y # ys) = x @ CHR ''/'' # join_sep (y # ys)"

text \<open>
  One element of \<open>filepath.Clean\<close>, the elements kept so far in reverse: empty elements and
  \<open>.\<close> are dropped, \<open>..\<close> removes the element before it, is dropped at the start of a
  rooted path and is kept at the start of a relative one.
\<close>

fun clean_step :: "bool \<Rightarrow> string list \<Rightarrow> string \<Rightarrow> string list" where
  "clean_step rooted stk c =
    (if c = [] \<or> c = ''.'' then stk
     else if c = ''..'' then
       (case stk of
          [] \<Rightarrow> if rooted then [] else [''..'']
        | t # ts \<Rightarrow> if t = ''..'' then ''..'' # stk else ts)
     else c # stk)"

definition Clean :: "string \<Rightarrow> string" where
  "Clean path =
    (let rooted = (path \<noteq> [] \<and> hd path = CHR ''/'');
         body = join_sep (rev (foldl (clean_step rooted) [] (split_sep path [])));
         out = (if rooted then CHR ''/'' # body else body)
     in if out = [] then ''.'' else out)"

text \<open>\<open>filepath.Join\<close> of two elements.\<close>

definition Join :: "string \<Rightarrow> string \<Rightarrow> string" where
  "Join a b =
    (if a \<noteq> [] then Clean (a @ CHR ''/'' # b)
     else if b \<noteq> [] then Clean b
     else [])"

fun strip_trailing_sep :: "string \<Rightarrow> string" where
  "strip_trailing_sep s =
    (if s \<noteq> [] \<and> last s = CHR ''/'' then strip_trailing_sep (butlast s) else s)"

declare strip_trailing_sep.simps [simp del]

text \<open>\<open>filepath.Base\<close>: the last element of the path.\<close>

definition Base :: "string \<Rightarrow> string" where
  "Base path =
    (if path = [] then ''.''
     else
       let p = last (split_sep (strip_trailing_sep path) [])
       in if p = [] then ''/'' else p)"

subsection \<open>The file system under the store's path\<close>

text \<open>
  What the file system holds at the path of the store: nothing, a regular file with its
  bytes, or a directory with its entries by name. Symbolic links, permissions and devices
  are not modelled, so the only failures of a system call are ENOENT, EISDIR, ENOTDIR and
  ENOTEMPTY.
\<close>

datatype node = File Blob | Dir "(string \<times> node) list"

type_synonym fsys = "node option"

fun IsDir :: "node \<Rightarrow> bool" where
  "IsDir (Dir _) = True"
| "IsDir (File _) = False"

text \<open>
  The lookup of the path \<open>filepath.Join(fsPath, name)\<close>, for a \<open>name\<close> that is a single path
  element: the entry \<open>name\<close> of the directory at \<open>fsPath\<close>.
\<close>

definition resolve :: "fsys \<Rightarrow> string \<Rightarrow> errno + node" where
  "resolve fs name =
    (case fs of
       None \<Rightarrow> Inl ENOENT
     | Some (File _) \<Rightarrow> Inl ENOTDIR
     | Some (Dir es) \<Rightarrow> (case map_of es name of None \<Rightarrow> Inl ENOENT | Some nd \<Rightarrow> Inr nd))"

text \<open>\<open>os.ReadFile(path)\<close>, given what the lookup of \<open>path\<close> finds.\<close>

definition ReadFile :: "string \<Rightarrow> errno + node \<Rightarrow> Blob \<times> error option" where
  "ReadFile path r =
    (case r of
       Inl e \<Rightarrow> ([], Some (PathError ''open'' path e))
     | Inr (File data) \<Rightarrow> (data, None)
     | Inr (Dir _) \<Rightarrow> ([], Some (PathError ''read'' path EISDIR)))"

text \<open>
  \<open>os.WriteFile(path, data, 0644)\<close> for the entry \<open>name\<close> of the store's directory: the file
  is created or truncated and written.
\<close>

definition WriteFile :: "fsys \<Rightarrow> string \<Rightarrow> string \<Rightarrow> Blob \<Rightarrow> error option \<times> fsys" where
  "WriteFile fs path name data =
    (case fs of
       None \<Rightarrow> (Some (PathError ''open'' path ENOENT), fs)
     | Some (File _) \<Rightarrow> (Some (PathError ''open'' path ENOTDIR), fs)
     | Some (Dir es) \<Rightarrow>
         (case map_of es name of
            Some (Dir _) \<Rightarrow> (Some (PathError ''open'' path EISDIR), fs)
          | _ \<Rightarrow> (None, Some (Dir (AList.update name (File data) es)))))"

text \<open>
  \<open>os.Remove(path)\<close> for the entry \<open>name\<close> of the store's directory: it removes a file or
  an empty directory.
\<close>

definition Remove :: "fsys \<Rightarrow> string \<Rightarrow> string \<Rightarrow> error option \<times> fsys" where
  "Remove fs path name =
    (case fs of
       None \<Rightarrow> (Some (PathError ''remove'' path ENOENT), fs)
     | Some (File _) \<Rightarrow> (Some (PathError ''remove'' path ENOTDIR), fs)
     | Some (Dir es) \<Rightarrow>
         (case map_of es name of
            None \<Rightarrow> (Some (PathError ''remove'' path ENOENT), fs)
          | Some (Dir (_ # _)) \<Rightarrow> (Some (PathError ''remove'' path ENOTEMPTY), fs)
          | _ \<Rightarrow> (None, Some (Dir (AList.delete name es)))))"

text \<open>\<open>os.Lstat(root)\<close>.\<close>

definition Lstat :: "fsys \<Rightarrow> string \<Rightarrow> error + node" where
  "Lstat fs root =
    (case fs of None \<Rightarrow> Inl (PathError ''lstat'' root ENOENT) | Some nd \<Rightarrow> Inr nd)"

text \<open>\<open>os.ReadDir\<close>: the entries of a directory, sorted by name.\<close>

definition ReadDir :: "(string \<times> node) list \<Rightarrow> (string \<times> node) list" where
  "ReadDir es = sort_key fst es"

subsection \<open>filepath.WalkDir\<close>

text \<open>
  The callback of a walk, \<open>fs.WalkDirFunc\<close>: it receives the path, the entry (nil when
  \<open>Lstat\<close> of the root failed) and an error, and returns an error or nil. What the
  closure captures and updates (\<open>lastObjectID\<close>, \<open>items\<close>) is the state \<open>'st\<close> passed
  through.
\<close>

type_synonym 'st WalkDirFunc =
  "string \<Rightarrow> node option \<Rightarrow> error option \<Rightarrow> 'st \<Rightarrow> error option \<times> 'st"

text \<open>
  \<open>filepath.walkDir\<close>: the callback is called on the entry itself first; an error stops
  the walk there (\<open>SkipDir\<close> on a directory only skips it); a directory that the callback
  accepted is read and its entries are walked in order, the first error ending the loop.
  Every directory of the model can be read, so the second call of the callback, which
  reports a failure of \<open>ReadDir\<close>, does not occur.
\<close>

function walkDir :: "string \<Rightarrow> node \<Rightarrow> 'st WalkDirFunc \<Rightarrow> 'st \<Rightarrow> error option \<times> 'st"
  and walkEntries ::
    "string \<Rightarrow> (string \<times> node) list \<Rightarrow> 'st WalkDirFunc \<Rightarrow> 'st \<Rightarrow> error option \<times> 'st"
where
  "walkDir path (File data) fn st = fn path (Some (File data)) None st"
| "walkDir path (Dir es) fn st =
    (case fn path (Some (Dir es)) None st of
       (Some err, st') \<Rightarrow> (if err = SkipDir then (None, st') else (Some err, st'))
     | (None, st') \<Rightarrow> walkEntries path (ReadDir es) fn st')"
| "walkEntries path [] fn st = (None, st)"
| "walkEntries path ((name, d1) # dirs) fn st =
    (case walkDir (Join path name) d1 fn st of
       (Some err, st') \<Rightarrow> (if err = SkipDir then (None, st') else (Some err, st'))
     | (None, st') \<Rightarrow> walkEntries path dirs fn st')"
  by pat_completeness auto
termination
proof (relation "measure (\<lambda>x. case x of
          Inl (path, nd, fn, st) \<Rightarrow> 2 * size nd
        | Inr (path, ds, fn, st) \<Rightarrow> 2 * size_list (size_prod (\<lambda>_. 0) size) ds + 1)",
      goal_cases)
  case 1
  show ?case by simp
next
  case (2 path es fn st x y)
  have ins: "size_list f (insort_key k a xs) = Suc (f a + size_list f xs)"
    for f :: "string \<times> node \<Rightarrow> nat" and k :: "string \<times> node \<Rightarrow> string" and a xs
    by (induction xs) auto
  have "size_list f (sort_key k xs) = size_list f xs"
    for f :: "string \<times> node \<Rightarrow> nat" and k :: "string \<times> node \<Rightarrow> string" and xs
    by (induction xs) (auto simp: ins)
  then show ?case by (simp add: ReadDir_def)
next
  case 3
  then show ?case by simp
next
  case 4
  then show ?case by simp
qed

text \<open>
  \<open>filepath.WalkDir(root, fn)\<close>: the walk starts at the root itself. When \<open>Lstat\<close> of the
  root fails the callback is called once, with a nil entry and the error.
\<close>

definition WalkDir :: "fsys \<Rightarrow> string \<Rightarrow> 'st WalkDirFunc \<Rightarrow> 'st \<Rightarrow> error option \<times> 'st" where
  "WalkDir fs root fn st =
    (case (case Lstat fs root of
             Inl err \<Rightarrow> fn root None (Some err) st
           | Inr info \<Rightarrow> walkDir root info fn st) of
       (err, st') \<Rightarrow>
         if err = Some SkipDir \<or> err = Some SkipAll then (None, st') else (err, st'))"

subsection \<open>fsdir.go\<close>

definition lockFile :: string where
  "lockFile = ''.lock''"

record FSDir =
  lastObjectID :: ID
  pid :: go_int
  fsPath :: string

text \<open>\<open>getOwner\<close>: the process identifier written in the lock file.\<close>

definition getOwner :: "FSDir \<Rightarrow> fsys \<Rightarrow> go_int \<times> error option" where
  "getOwner dr fs =
    (let lockPath = Join (fsPath dr) lockFile
     in case ReadFile lockPath (resolve fs lockFile) of
          (data, Some err) \<Rightarrow> (0, Some err)
        | (data, None) \<Rightarrow> Atoi data)"

definition checkOwnedByMe :: "FSDir \<Rightarrow> fsys \<Rightarrow> error option" where
  "checkOwnedByMe dr fs =
    (case getOwner dr fs of
       (curPid, Some err) \<Rightarrow> Some err
     | (curPid, None) \<Rightarrow>
         if curPid \<noteq> pid dr then Some (ErrDifferentOwner curPid) else None)"

definition releaseOwnership :: "FSDir \<Rightarrow> fsys \<Rightarrow> error option \<times> fsys" where
  "releaseOwnership dr fs =
    (let lockPath = Join (fsPath dr) lockFile in Remove fs lockPath lockFile)"

definition Close :: "FSDir \<Rightarrow> fsys \<Rightarrow> error option \<times> fsys" where
  "Close dr fs = releaseOwnership dr fs"

text \<open>
  The closure that \<open>getLastObjectID\<close> passes to the walk; its state \<open>lastID\<close> is the
  variable \<open>lastObjectID\<close> it captures.
\<close>

definition getLastObjectID_fn :: "ID WalkDirFunc" where
  "getLastObjectID_fn path d err lastID =
    (case err of
       Some e \<Rightarrow> (Some e, lastID)
     | None \<Rightarrow>
        (case d of
           None \<Rightarrow> (Some NilDirEntry, lastID)
         | Some nd \<Rightarrow>
             if IsDir nd then (Some (ErrCorruptedContent path), lastID)
             else
               let fName = Base path
               in if fName = lockFile then (None, lastID)
                  else if HasPrefix fName ''.'' then (None, lastID)
                  else
                    (case Atoi fName of
                       (objectID, Some cerr) \<Rightarrow> (Some (ErrCorruptedContent path), lastID)
                     | (objectID, None) \<Rightarrow> (None, max_int objectID lastID))))"

definition getLastObjectID :: "FSDir \<Rightarrow> fsys \<Rightarrow> ID \<times> error option" where
  "getLastObjectID dr fs =
    (case WalkDir fs (fsPath dr) getLastObjectID_fn 0 of
       (rerr, lastID) \<Rightarrow> (lastID, rerr))"

text \<open>
  \<open>NewFSDir\<close>; \<open>os.Getpid()\<close> is the argument \<open>getpid\<close>. The result is the handle, or none
  with the error.
\<close>

definition NewFSDir :: "go_int \<Rightarrow> string \<Rightarrow> fsys \<Rightarrow> FSDir option \<times> error option" where
  "NewFSDir getpid path fs =
    (let fsDir = \<lparr>lastObjectID = 0, pid = getpid, fsPath = path\<rparr>
     in case checkOwnedByMe fsDir fs of
          Some err \<Rightarrow> (None, Some err)
        | None \<Rightarrow>
            (case getLastObjectID fsDir fs of
               (lastID, Some err) \<Rightarrow> (None, Some err)
             | (lastID, None) \<Rightarrow>
                 (Some (fsDir\<lparr>lastObjectID := max_int lastID 1\<rparr>), None)))"

definition Save :: "FSDir \<Rightarrow> fsys \<Rightarrow> ID \<Rightarrow> Blob \<Rightarrow> error option \<times> fsys" where
  "Save dr fs oid blob =
    (case checkOwnedByMe dr fs of
       Some err \<Rightarrow> (Some err, fs)
     | None \<Rightarrow>
         let objPath = Join (fsPath dr) (FormatInt oid)
         in WriteFile fs objPath (FormatInt oid) blob)"

text \<open>\<open>Create\<close> returns the identifier and the error, with the handle and the file system after it.\<close>

definition Create :: "FSDir \<Rightarrow> fsys \<Rightarrow> Blob \<Rightarrow> (ID \<times> error option) \<times> FSDir \<times> fsys" where
  "Create dr fs data =
    (case checkOwnedByMe dr fs of
       Some err \<Rightarrow> ((0, Some err), dr, fs)
     | None \<Rightarrow>
         let objectID = lastObjectID dr + 1
         in case Save dr fs objectID data of
              (Some err, fs') \<Rightarrow> ((NullID, Some err), dr, fs')
            | (None, fs') \<Rightarrow>
                let dr' = dr\<lparr>lastObjectID := objectID\<rparr>
                in ((lastObjectID dr', None), dr', fs'))"

text \<open>
  The closure that \<open>LoadAll\<close> passes to the walk; its state is the slice \<open>items\<close>. It reads
  the file at \<open>path\<close>, which is the entry the walk is visiting.
\<close>

definition LoadAll_fn :: "Item list WalkDirFunc" where
  "LoadAll_fn path d err items =
    (case err of
       Some e \<Rightarrow> (Some e, items)
     | None \<Rightarrow>
        (case d of
           None \<Rightarrow> (Some NilDirEntry, items)
         | Some nd \<Rightarrow>
             if IsDir nd then (Some (ErrCorruptedContent path), items)
             else
               let fName = Base path
               in if fName = lockFile then (None, items)
                  else if HasPrefix fName ''.'' then (None, items)
                  else
                    (case Atoi fName of
                       (objectID, Some cerr) \<Rightarrow> (Some (ErrCorruptedContent path), items)
                     | (objectID, None) \<Rightarrow>
                         (case ReadFile path (Inr nd) of
                            (data, Some rerr) \<Rightarrow> (Some (ErrCorruptedContent path), items)
                          | (data, None) \<Rightarrow> (None, items @ [Item objectID data])))))"

definition LoadAll :: "FSDir \<Rightarrow> fsys \<Rightarrow> Item list \<times> error option" where
  "LoadAll dr fs =
    (case checkOwnedByMe dr fs of
       Some err \<Rightarrow> ([], Some err)
     | None \<Rightarrow>
         (case WalkDir fs (fsPath dr) LoadAll_fn [] of
            (err, items) \<Rightarrow> (items, err)))"

definition Load :: "FSDir \<Rightarrow> fsys \<Rightarrow> ID \<Rightarrow> Blob \<times> error option" where
  "Load dr fs oid =
    (case checkOwnedByMe dr fs of
       Some err \<Rightarrow> ([], Some err)
     | None \<Rightarrow>
         let objPath = Join (fsPath dr) (FormatInt oid)
         in case ReadFile objPath (resolve fs (FormatInt oid)) of
              (data, err) \<Rightarrow>
                if IsNotExist err then ([], Some (ErrNotFound oid)) else (data, err))"

definition Delete :: "FSDir \<Rightarrow> fsys \<Rightarrow> ID \<Rightarrow> error option \<times> fsys" where
  "Delete dr fs oid =
    (case checkOwnedByMe dr fs of
       Some err \<Rightarrow> (Some err, fs)
     | None \<Rightarrow>
         let objPath = Join (fsPath dr) (FormatInt oid)
         in Remove fs objPath (FormatInt oid))"

subsection \<open>A client of one handle\<close>

text \<open>
  The calls a client makes through one handle, one after the other: each operation runs on
  the handle and the file system that the operation before it left.
\<close>

datatype op = OpCreate Blob | OpLoad ID | OpLoadAll | OpSave ID Blob | OpDelete ID | OpClose

datatype outcome =
    Created ID "error option"
  | Loaded Blob "error option"
  | LoadedAll "Item list" "error option"
  | Finished "error option"

fun step :: "FSDir \<Rightarrow> fsys \<Rightarrow> op \<Rightarrow> outcome \<times> FSDir \<times> fsys" where
  "step dr fs (OpCreate data) =
    (case Create dr fs data of ((oid, err), dr', fs') \<Rightarrow> (Created oid err, dr', fs'))"
| "step dr fs (OpLoad oid) = (case Load dr fs oid of (data, err) \<Rightarrow> (Loaded data err, dr, fs))"
| "step dr fs OpLoadAll = (case LoadAll dr fs of (items, err) \<Rightarrow> (LoadedAll items err, dr, fs))"
| "step dr fs (OpSave oid data) =
    (case Save dr fs oid data of (err, fs') \<Rightarrow> (Finished err, dr, fs'))"
| "step dr fs (OpDelete oid) = (case Delete dr fs oid of (err, fs') \<Rightarrow> (Finished err, dr, fs'))"
| "step dr fs OpClose = (case Close dr fs of (err, fs') \<Rightarrow> (Finished err, dr, fs'))"

fun run :: "FSDir \<Rightarrow> fsys \<Rightarrow> op list \<Rightarrow> outcome list \<times> FSDir \<times> fsys" where
  "run dr fs [] = ([], dr, fs)"
| "run dr fs (x # xs) =
    (case step dr fs x of
       (r, dr1, fs1) \<Rightarrow> (case run dr1 fs1 xs of (rs, dr2, fs2) \<Rightarrow> (r # rs, dr2, fs2)))"

fun err_of :: "outcome \<Rightarrow> error option" where
  "err_of (Created _ err) = err"
| "err_of (Loaded _ err) = err"
| "err_of (LoadedAll _ err) = err"
| "err_of (Finished err) = err"

text \<open>The identifiers that the successful creations returned, in order.\<close>

fun created_ids :: "outcome list \<Rightarrow> ID list" where
  "created_ids [] = []"
| "created_ids (Created oid None # rs) = oid # created_ids rs"
| "created_ids (_ # rs) = created_ids rs"

subsection \<open>Decimal texts\<close>

text \<open>
  A name that is the decimal text of a non-negative integer, as the spec has it: one or
  more decimal digits.
\<close>

definition is_decimal :: "string \<Rightarrow> bool" where
  "is_decimal name = (name \<noteq> [] \<and> list_all (\<lambda>c. digit_val c \<noteq> None) name)"

text \<open>The number that a text of decimal digits denotes, continuing from \<open>n\<close>.\<close>

fun decimal_value :: "string \<Rightarrow> nat \<Rightarrow> nat" where
  "decimal_value [] n = n"
| "decimal_value (c # cs) n =
     decimal_value cs (n * 10 + (case digit_val c of Some d \<Rightarrow> d | None \<Rightarrow> 0))"

text \<open>
  The decimal text of a 64-bit signed integer: decimal digits after an optional sign, the
  number between \<open>- 2 ^ 63\<close> and \<open>2 ^ 63 - 1\<close>.
\<close>

definition is_int64_text :: "string \<Rightarrow> bool" where
  "is_int64_text s =
    (case s of
       [] \<Rightarrow> False
     | c # cs \<Rightarrow>
         if c = CHR ''-'' then is_decimal cs \<and> decimal_value cs 0 \<le> 2 ^ 63
         else if c = CHR ''+'' then is_decimal cs \<and> decimal_value cs 0 < 2 ^ 63
         else is_decimal s \<and> decimal_value s 0 < 2 ^ 63)"

section \<open>Properties\<close>

lemmas eval_defs = NewFSDir_def checkOwnedByMe_def getOwner_def getLastObjectID_def
  getLastObjectID_fn_def LoadAll_def LoadAll_fn_def WalkDir_def Lstat_def ReadFile_def
  resolve_def lockFile_def Atoi_def ParseUint_def Join_def Clean_def Base_def HasPrefix_def
  ReadDir_def Save_def Create_def Load_def Delete_def Close_def releaseOwnership_def
  WriteFile_def Remove_def FormatInt_def FormatUint.simps strip_trailing_sep.simps
  max_int_def NullID_def is_decimal_def digit_val_def digit_char_def

subsection \<open>Ownership\<close>

lemma owned_is_dir:
  assumes "checkOwnedByMe dr fs = None"
  shows "\<exists>es. fs = Some (Dir es)"
proof (cases fs)
  case None
  with assms show ?thesis
    by (simp add: checkOwnedByMe_def getOwner_def resolve_def ReadFile_def)
next
  case (Some nd)
  with assms show ?thesis
    by (cases nd) (simp_all add: checkOwnedByMe_def getOwner_def resolve_def ReadFile_def)
qed

lemma checkOwnedByMe_missing:
  "resolve fs lockFile = Inl e \<Longrightarrow>
   checkOwnedByMe dr fs = Some (PathError ''open'' (Join (fsPath dr) lockFile) e)"
  by (simp add: checkOwnedByMe_def getOwner_def ReadFile_def)

lemma checkOwnedByMe_lock_is_dir:
  "resolve fs lockFile = Inr (Dir es) \<Longrightarrow>
   checkOwnedByMe dr fs = Some (PathError ''read'' (Join (fsPath dr) lockFile) EISDIR)"
  by (simp add: checkOwnedByMe_def getOwner_def ReadFile_def)

lemma checkOwnedByMe_token:
  "resolve fs lockFile = Inr (File tok) \<Longrightarrow>
   checkOwnedByMe dr fs =
     (case Atoi tok of
        (curPid, Some err) \<Rightarrow> Some err
      | (curPid, None) \<Rightarrow> if curPid \<noteq> pid dr then Some (ErrDifferentOwner curPid) else None)"
  by (simp add: checkOwnedByMe_def getOwner_def ReadFile_def)

subsection \<open>The walk starts at the root\<close>

lemma getLastObjectID_Dir:
  "getLastObjectID dr (Some (Dir es)) = (0, Some (ErrCorruptedContent (fsPath dr)))"
  by (simp add: getLastObjectID_def WalkDir_def Lstat_def getLastObjectID_fn_def)

lemma WalkDir_LoadAll_fn_Dir:
  "WalkDir (Some (Dir es)) root LoadAll_fn items = (Some (ErrCorruptedContent root), items)"
  by (simp add: WalkDir_def Lstat_def LoadAll_fn_def)

text \<open>
  C10, as stated for every backing directory, fails where the ownership check fails, since
  that check runs before the walk: on a directory with entries 1 and 2 and no lock file
  \<open>NewFSDir\<close> returns the error of reading the lock file, and on a directory whose lock
  file names process 77 \<open>LoadAll\<close>, called by process 4242, returns \<open>ErrDifferentOwner\<close>;
  neither returns the corrupted-content error.
\<close>

theorem unowned_store_counterexample:
  "NewFSDir 4242 ''/data/store'' (Some (Dir [(''1'', File ''a''), (''2'', File ''b'')]))
     = (None, Some (PathError ''open'' ''/data/store/.lock'' ENOENT))
   \<and> LoadAll \<lparr>lastObjectID = 2, pid = 4242, fsPath = ''/data/store''\<rparr>
       (Some (Dir [(''.lock'', File ''77''), (''1'', File ''a''), (''2'', File ''b'')]))
     = ([], Some (ErrDifferentOwner 77))
   \<and> PathError ''open'' ''/data/store/.lock'' ENOENT \<noteq> ErrCorruptedContent ''/data/store''
   \<and> ErrDifferentOwner 77 \<noteq> ErrCorruptedContent ''/data/store''"
  by (simp add: eval_defs)

text \<open>
  C10, amended. The walk of \<open>getLastObjectID\<close> and the walk of \<open>LoadAll\<close> call their
  callback on the store's directory itself first, and the callback rejects every directory
  before it looks at a name. So for every directory, whatever its entries,
  \<open>getLastObjectID\<close> and the walk of \<open>LoadAll\<close> return the corrupted-content error that
  names the store's path; and for every backing directory on which the ownership check
  passes, \<open>NewFSDir\<close> and \<open>LoadAll\<close> return that error.
\<close>

theorem walk_rejects_root:
  "getLastObjectID dr (Some (Dir es)) = (0, Some (ErrCorruptedContent (fsPath dr)))
   \<and> WalkDir (Some (Dir es)) (fsPath dr) LoadAll_fn [] =
       (Some (ErrCorruptedContent (fsPath dr)), [])
   \<and> (checkOwnedByMe \<lparr>lastObjectID = 0, pid = getpid, fsPath = path\<rparr> fs = None \<longrightarrow>
        NewFSDir getpid path fs = (None, Some (ErrCorruptedContent path)))
   \<and> (checkOwnedByMe dr fs = None \<longrightarrow>
        LoadAll dr fs = ([], Some (ErrCorruptedContent (fsPath dr))))"
proof (intro conjI impI)
  show "getLastObjectID dr (Some (Dir es)) = (0, Some (ErrCorruptedContent (fsPath dr)))"
    by (rule getLastObjectID_Dir)
  show "WalkDir (Some (Dir es)) (fsPath dr) LoadAll_fn [] =
      (Some (ErrCorruptedContent (fsPath dr)), [])"
    by (rule WalkDir_LoadAll_fn_Dir)
next
  assume own: "checkOwnedByMe \<lparr>lastObjectID = 0, pid = getpid, fsPath = path\<rparr> fs = None"
  then obtain es' where "fs = Some (Dir es')"
    using owned_is_dir by blast
  with own show "NewFSDir getpid path fs = (None, Some (ErrCorruptedContent path))"
    by (simp add: NewFSDir_def getLastObjectID_Dir)
next
  assume own: "checkOwnedByMe dr fs = None"
  then obtain es' where "fs = Some (Dir es')"
    using owned_is_dir by blast
  with own show "LoadAll dr fs = ([], Some (ErrCorruptedContent (fsPath dr)))"
    by (simp add: LoadAll_def WalkDir_LoadAll_fn_Dir)
qed

theorem walk_rejects_root_witness:
  "checkOwnedByMe \<lparr>lastObjectID = 0, pid = 4242, fsPath = ''/data/store''\<rparr>
     (Some (Dir [(''.lock'', File ''4242''), (''1'', File ''a''), (''2'', File ''b'')])) = None
   \<and> NewFSDir 4242 ''/data/store''
       (Some (Dir [(''.lock'', File ''4242''), (''1'', File ''a''), (''2'', File ''b'')]))
     = (None, Some (ErrCorruptedContent ''/data/store''))
   \<and> LoadAll \<lparr>lastObjectID = 0, pid = 4242, fsPath = ''/data/store''\<rparr>
       (Some (Dir [(''.lock'', File ''4242''), (''1'', File ''a''), (''2'', File ''b'')]))
     = ([], Some (ErrCorruptedContent ''/data/store''))"
proof -
  let ?dr = "\<lparr>lastObjectID = 0, pid = 4242, fsPath = ''/data/store''\<rparr>"
  let ?fs = "Some (Dir [(''.lock'', File ''4242''), (''1'', File ''a''), (''2'', File ''b'')])"
  have own: "checkOwnedByMe ?dr ?fs = None"
    by (simp add: checkOwnedByMe_def getOwner_def resolve_def ReadFile_def lockFile_def
        Atoi_def ParseUint_def digit_val_def)
  from walk_rejects_root [of ?dr "[]" 4242 "''/data/store''" ?fs] own
  show ?thesis by simp
qed

text \<open>
  C1. On an owned directory with the entries 1, 3 and 7, and on an owned directory with no
  entry but the lock file, \<open>NewFSDir\<close> returns no handle: the walk rejects the store's
  directory itself, so no counter is seeded and no creation can follow. The walk over the
  entries alone, which the root's rejection prevents, finds the maximum 7.
\<close>

theorem NewFSDir_fails_on_owned_store:
  "NewFSDir 4242 ''/data/store''
     (Some (Dir [(''.lock'', File ''4242''), (''1'', File ''a''), (''3'', File ''c''),
                 (''7'', File ''g'')]))
     = (None, Some (ErrCorruptedContent ''/data/store''))
   \<and> NewFSDir 4242 ''/data/store'' (Some (Dir [(''.lock'', File ''4242'')]))
     = (None, Some (ErrCorruptedContent ''/data/store''))
   \<and> walkEntries ''/data/store''
       (ReadDir [(''.lock'', File ''4242''), (''1'', File ''a''), (''3'', File ''c''),
                 (''7'', File ''g'')])
       getLastObjectID_fn 0
     = (None, 7)"
  by (simp add: eval_defs)

text \<open>
  C7. On an owned directory whose entries are the files 1 and 2 and the lock file,
  \<open>LoadAll\<close> returns no item and the corrupted-content error that names the store's
  directory. The walk over the entries alone, which the root's rejection prevents,
  collects the Items 1 and 2.
\<close>

theorem LoadAll_fails_on_owned_store:
  "LoadAll \<lparr>lastObjectID = 2, pid = 4242, fsPath = ''/data/store''\<rparr>
     (Some (Dir [(''.lock'', File ''4242''), (''1'', File ''a''), (''2'', File ''b'')]))
     = ([], Some (ErrCorruptedContent ''/data/store''))
   \<and> walkEntries ''/data/store''
       (ReadDir [(''.lock'', File ''4242''), (''1'', File ''a''), (''2'', File ''b'')])
       LoadAll_fn []
     = (None, [Item 1 ''a'', Item 2 ''b''])"
  by (simp add: eval_defs)

subsection \<open>Ownership is checked first\<close>

text \<open>
  C3. When the lock file is missing, or cannot be read, \<open>checkOwnedByMe\<close> fails with the
  error of the read; when it holds the identifier of another process, \<open>checkOwnedByMe\<close>
  fails with \<open>ErrDifferentOwner\<close> carrying that identifier. Whenever \<open>checkOwnedByMe\<close>
  fails, \<open>NewFSDir\<close>, \<open>Create\<close>, \<open>Load\<close>, \<open>LoadAll\<close>, \<open>Save\<close> and \<open>Delete\<close> return its
  error; \<open>Create\<close>, \<open>Save\<close> and \<open>Delete\<close> leave the file system and the handle as they were,
  and \<open>NewFSDir\<close>, \<open>Load\<close> and \<open>LoadAll\<close> call nothing that writes.
\<close>

theorem ownership_checked_first:
  "(resolve fs lockFile = Inl e \<longrightarrow>
      checkOwnedByMe dr fs = Some (PathError ''open'' (Join (fsPath dr) lockFile) e))
   \<and> (resolve fs lockFile = Inr (Dir es) \<longrightarrow>
      checkOwnedByMe dr fs = Some (PathError ''read'' (Join (fsPath dr) lockFile) EISDIR))
   \<and> (resolve fs lockFile = Inr (File tok) \<and> Atoi tok = (p, None) \<and> p \<noteq> pid dr \<longrightarrow>
      checkOwnedByMe dr fs = Some (ErrDifferentOwner p))
   \<and> (checkOwnedByMe dr fs = Some err \<longrightarrow>
        Create dr fs data = ((0, Some err), dr, fs)
      \<and> Load dr fs oid = ([], Some err)
      \<and> LoadAll dr fs = ([], Some err)
      \<and> Save dr fs oid data = (Some err, fs)
      \<and> Delete dr fs oid = (Some err, fs))
   \<and> (checkOwnedByMe \<lparr>lastObjectID = 0, pid = getpid, fsPath = path\<rparr> fs = Some err \<longrightarrow>
        NewFSDir getpid path fs = (None, Some err))"
proof (intro conjI impI)
  assume "resolve fs lockFile = Inl e"
  then show "checkOwnedByMe dr fs = Some (PathError ''open'' (Join (fsPath dr) lockFile) e)"
    by (rule checkOwnedByMe_missing)
next
  assume "resolve fs lockFile = Inr (Dir es)"
  then show "checkOwnedByMe dr fs = Some (PathError ''read'' (Join (fsPath dr) lockFile) EISDIR)"
    by (rule checkOwnedByMe_lock_is_dir)
next
  assume "resolve fs lockFile = Inr (File tok) \<and> Atoi tok = (p, None) \<and> p \<noteq> pid dr"
  then show "checkOwnedByMe dr fs = Some (ErrDifferentOwner p)"
    by (simp add: checkOwnedByMe_token)
next
  assume "checkOwnedByMe dr fs = Some err"
  then show "Create dr fs data = ((0, Some err), dr, fs)" "Load dr fs oid = ([], Some err)"
    "LoadAll dr fs = ([], Some err)" "Save dr fs oid data = (Some err, fs)"
    "Delete dr fs oid = (Some err, fs)"
    by (simp_all add: Create_def Load_def LoadAll_def Save_def Delete_def)
next
  assume "checkOwnedByMe \<lparr>lastObjectID = 0, pid = getpid, fsPath = path\<rparr> fs = Some err"
  then show "NewFSDir getpid path fs = (None, Some err)"
    by (simp add: NewFSDir_def)
qed

text \<open>
  The lock file missing, the lock file a directory, and the lock file naming process 77
  while the caller is process 4242.
\<close>

theorem ownership_checked_first_witness:
  "resolve (Some (Dir [(''1'', File ''a'')])) lockFile = Inl ENOENT
   \<and> checkOwnedByMe \<lparr>lastObjectID = 1, pid = 4242, fsPath = ''/data/store''\<rparr>
        (Some (Dir [(''1'', File ''a'')]))
      = Some (PathError ''open'' ''/data/store/.lock'' ENOENT)
   \<and> Create \<lparr>lastObjectID = 1, pid = 4242, fsPath = ''/data/store''\<rparr>
        (Some (Dir [(''1'', File ''a'')])) ''x''
      = ((0, Some (PathError ''open'' ''/data/store/.lock'' ENOENT)),
         \<lparr>lastObjectID = 1, pid = 4242, fsPath = ''/data/store''\<rparr>,
         Some (Dir [(''1'', File ''a'')]))
   \<and> Delete \<lparr>lastObjectID = 1, pid = 4242, fsPath = ''/data/store''\<rparr>
        (Some (Dir [(''1'', File ''a'')])) 1
      = (Some (PathError ''open'' ''/data/store/.lock'' ENOENT), Some (Dir [(''1'', File ''a'')]))
   \<and> resolve (Some (Dir [(''.lock'', Dir []), (''1'', File ''a'')])) lockFile = Inr (Dir [])
   \<and> checkOwnedByMe \<lparr>lastObjectID = 1, pid = 4242, fsPath = ''/data/store''\<rparr>
        (Some (Dir [(''.lock'', Dir []), (''1'', File ''a'')]))
      = Some (PathError ''read'' ''/data/store/.lock'' EISDIR)
   \<and> resolve (Some (Dir [(''.lock'', File ''77''), (''1'', File ''a'')])) lockFile
      = Inr (File ''77'')
   \<and> Atoi ''77'' = (77, None)
   \<and> checkOwnedByMe \<lparr>lastObjectID = 1, pid = 4242, fsPath = ''/data/store''\<rparr>
        (Some (Dir [(''.lock'', File ''77''), (''1'', File ''a'')]))
      = Some (ErrDifferentOwner 77)
   \<and> Save \<lparr>lastObjectID = 1, pid = 4242, fsPath = ''/data/store''\<rparr>
        (Some (Dir [(''.lock'', File ''77''), (''1'', File ''a'')])) 1 ''x''
      = (Some (ErrDifferentOwner 77), Some (Dir [(''.lock'', File ''77''), (''1'', File ''a'')]))
   \<and> Load \<lparr>lastObjectID = 1, pid = 4242, fsPath = ''/data/store''\<rparr>
        (Some (Dir [(''.lock'', File ''77''), (''1'', File ''a'')])) 1
      = ([], Some (ErrDifferentOwner 77))
   \<and> LoadAll \<lparr>lastObjectID = 1, pid = 4242, fsPath = ''/data/store''\<rparr>
        (Some (Dir [(''.lock'', File ''77''), (''1'', File ''a'')]))
      = ([], Some (ErrDifferentOwner 77))
   \<and> NewFSDir 4242 ''/data/store'' (Some (Dir [(''.lock'', File ''77''), (''1'', File ''a'')]))
      = (None, Some (ErrDifferentOwner 77))"
proof -
  let ?dr = "\<lparr>lastObjectID = 1, pid = 4242, fsPath = ''/data/store''\<rparr>"
  let ?fs1 = "Some (Dir [(''1'', File ''a'')])"
  let ?fs2 = "Some (Dir [(''.lock'', File ''77''), (''1'', File ''a'')])"
  let ?fs3 = "Some (Dir [(''.lock'', Dir []), (''1'', File ''a'')])"
  let ?e1 = "PathError ''open'' ''/data/store/.lock'' ENOENT"
  have path: "Join (fsPath ?dr) lockFile = ''/data/store/.lock''"
    by (simp add: Join_def Clean_def lockFile_def)
  have h1: "resolve ?fs1 lockFile = Inl ENOENT"
    by (simp add: resolve_def lockFile_def)
  have h3: "resolve ?fs3 lockFile = Inr (Dir [])"
    by (simp add: resolve_def lockFile_def)
  have h2: "resolve ?fs2 lockFile = Inr (File ''77'')"
    by (simp add: resolve_def lockFile_def)
  have a: "Atoi ''77'' = (77, None)"
    by (simp add: Atoi_def ParseUint_def digit_val_def)
  have c1: "checkOwnedByMe ?dr ?fs1 = Some ?e1"
    using ownership_checked_first [where fs = ?fs1 and dr = ?dr and e = ENOENT] h1 path
    by simp
  have c3: "checkOwnedByMe ?dr ?fs3 = Some (PathError ''read'' ''/data/store/.lock'' EISDIR)"
    using ownership_checked_first [where fs = ?fs3 and dr = ?dr and es = "[]"] h3 path
    by simp
  have c2: "checkOwnedByMe ?dr ?fs2 = Some (ErrDifferentOwner 77)"
    using ownership_checked_first [where fs = ?fs2 and dr = ?dr and tok = "''77''" and p = 77]
      h2 a
    by simp
  have c2': "checkOwnedByMe \<lparr>lastObjectID = 0, pid = 4242, fsPath = ''/data/store''\<rparr> ?fs2
      = Some (ErrDifferentOwner 77)"
    using ownership_checked_first [where fs = ?fs2 and tok = "''77''" and p = 77
        and dr = "\<lparr>lastObjectID = 0, pid = 4242, fsPath = ''/data/store''\<rparr>"] h2 a
    by simp
  have o1: "Create ?dr ?fs1 ''x'' = ((0, Some ?e1), ?dr, ?fs1)"
    "Delete ?dr ?fs1 1 = (Some ?e1, ?fs1)"
    using ownership_checked_first [where fs = ?fs1 and dr = ?dr and err = ?e1
        and data = "''x''" and oid = 1] c1
    by simp_all
  have o2: "Save ?dr ?fs2 1 ''x'' = (Some (ErrDifferentOwner 77), ?fs2)"
    "Load ?dr ?fs2 1 = ([], Some (ErrDifferentOwner 77))"
    "LoadAll ?dr ?fs2 = ([], Some (ErrDifferentOwner 77))"
    using ownership_checked_first [where fs = ?fs2 and dr = ?dr and err = "ErrDifferentOwner 77"
        and data = "''x''" and oid = 1] c2
    by simp_all
  have o3: "NewFSDir 4242 ''/data/store'' ?fs2 = (None, Some (ErrDifferentOwner 77))"
    using ownership_checked_first [where fs = ?fs2 and getpid = 4242 and path = "''/data/store''"
        and err = "ErrDifferentOwner 77"] c2'
    by simp
  from h1 c1 o1 h3 c3 h2 a c2 o2 o3 show ?thesis
    by (intro conjI)
qed

subsection \<open>Names of blobs and the lock file\<close>

lemma digit_char_no_dot: "k < 10 \<Longrightarrow> CHR ''.'' \<noteq> digit_char k"
proof -
  assume "k < 10"
  then have "digit_char k \<in> set ''0123456789''"
    unfolding digit_char_def by (intro nth_mem) simp
  then show ?thesis by auto
qed

lemma FormatUint_no_dot: "CHR ''.'' \<notin> set (FormatUint n)"
proof (induction n rule: FormatUint.induct)
  case (1 n)
  show ?case
  proof (cases "n < 10")
    case True
    then show ?thesis
      by (subst FormatUint.simps) (simp add: digit_char_no_dot)
  next
    case False
    with "1" show ?thesis
      by (subst FormatUint.simps) (simp add: digit_char_no_dot)
  qed
qed

lemma FormatInt_not_lockFile: "FormatInt i \<noteq> lockFile"
proof
  assume "FormatInt i = lockFile"
  then have "CHR ''.'' \<in> set (FormatInt i)"
    by (simp add: lockFile_def)
  then show False
    by (simp add: FormatInt_def FormatUint_no_dot split: if_splits)
qed

lemma checkOwnedByMe_cong:
  "resolve fs' lockFile = resolve fs lockFile \<Longrightarrow> checkOwnedByMe dr fs' = checkOwnedByMe dr fs"
  by (simp add: checkOwnedByMe_def getOwner_def)

lemma resolve_WriteFile:
  assumes "WriteFile fs path name data = (None, fs')"
  shows "resolve fs' n = (if n = name then Inr (File data) else resolve fs n)"
  using assms
  by (auto simp: WriteFile_def resolve_def update_conv'
      split: option.splits node.splits if_splits)

lemma WriteFile_failed: "WriteFile fs path name data = (Some e, fs') \<Longrightarrow> fs' = fs"
  by (auto simp: WriteFile_def split: option.splits node.splits)

lemma resolve_Remove:
  assumes "Remove fs path name = (None, fs')"
  shows "resolve fs' n = (if n = name then Inl ENOENT else resolve fs n)"
  using assms
  by (auto simp: Remove_def resolve_def delete_conv'
      split: option.splits node.splits list.splits if_splits)

lemma Remove_failed: "Remove fs path name = (Some e, fs') \<Longrightarrow> fs' = fs"
  by (auto simp: Remove_def split: option.splits node.splits list.splits)

lemma Save_ok:
  assumes "Save dr fs oid blob = (None, fs')"
  shows "checkOwnedByMe dr fs = None"
    and "WriteFile fs (Join (fsPath dr) (FormatInt oid)) (FormatInt oid) blob = (None, fs')"
  using assms by (auto simp: Save_def split: option.splits)

lemma owned_after_WriteFile:
  assumes "WriteFile fs path (FormatInt oid) data = (None, fs')"
  shows "checkOwnedByMe dr fs' = checkOwnedByMe dr fs"
proof (rule checkOwnedByMe_cong)
  have "lockFile \<noteq> FormatInt oid"
    using FormatInt_not_lockFile [of oid] by simp
  then show "resolve fs' lockFile = resolve fs lockFile"
    by (simp add: resolve_WriteFile [OF assms])
qed

lemma owned_after_Remove:
  assumes "Remove fs path (FormatInt oid) = (None, fs')"
  shows "checkOwnedByMe dr fs' = checkOwnedByMe dr fs"
proof (rule checkOwnedByMe_cong)
  have "lockFile \<noteq> FormatInt oid"
    using FormatInt_not_lockFile [of oid] by simp
  then show "resolve fs' lockFile = resolve fs lockFile"
    by (simp add: resolve_Remove [OF assms])
qed

subsection \<open>Save, then Load\<close>

text \<open>
  C4. After \<open>Save\<close> of a blob under an identifier succeeded, \<open>Load\<close> of that identifier
  through the same handle returns the blob, byte for byte, and no error; the empty blob
  included.
\<close>

theorem save_then_load:
  assumes "Save dr fs oid blob = (None, fs')"
  shows "Load dr fs' oid = (blob, None)"
proof -
  note w = Save_ok(2) [OF assms]
  have "checkOwnedByMe dr fs' = None"
    using owned_after_WriteFile [OF w] Save_ok(1) [OF assms] by simp
  moreover have "resolve fs' (FormatInt oid) = Inr (File blob)"
    by (simp add: resolve_WriteFile [OF w])
  ultimately show ?thesis
    by (simp add: Load_def ReadFile_def)
qed

text \<open>
  The empty blob written over an older one, and a blob under a new identifier.
\<close>

theorem save_then_load_witness:
  "Save \<lparr>lastObjectID = 1, pid = 4242, fsPath = ''/data/store''\<rparr>
      (Some (Dir [(''.lock'', File ''4242''), (''5'', File ''old'')])) 5 []
     = (None, Some (Dir [(''.lock'', File ''4242''), (''5'', File [])]))
   \<and> Load \<lparr>lastObjectID = 1, pid = 4242, fsPath = ''/data/store''\<rparr>
      (Some (Dir [(''.lock'', File ''4242''), (''5'', File [])])) 5 = ([], None)
   \<and> Save \<lparr>lastObjectID = 1, pid = 4242, fsPath = ''/data/store''\<rparr>
      (Some (Dir [(''.lock'', File ''4242'')])) (- 3) ''hello''
     = (None, Some (Dir [(''.lock'', File ''4242''), (''-3'', File ''hello'')]))
   \<and> Load \<lparr>lastObjectID = 1, pid = 4242, fsPath = ''/data/store''\<rparr>
      (Some (Dir [(''.lock'', File ''4242''), (''-3'', File ''hello'')])) (- 3) = (''hello'', None)"
proof -
  let ?dr = "\<lparr>lastObjectID = 1, pid = 4242, fsPath = ''/data/store''\<rparr>"
  have s1: "Save ?dr (Some (Dir [(''.lock'', File ''4242''), (''5'', File ''old'')])) 5 []
     = (None, Some (Dir [(''.lock'', File ''4242''), (''5'', File [])]))"
    by (simp add: eval_defs)
  have s2: "Save ?dr (Some (Dir [(''.lock'', File ''4242'')])) (- 3) ''hello''
     = (None, Some (Dir [(''.lock'', File ''4242''), (''-3'', File ''hello'')]))"
    by (simp add: eval_defs)
  from s1 s2 save_then_load [OF s1] save_then_load [OF s2] show ?thesis
    by (intro conjI)
qed

subsection \<open>A failed creation\<close>

text \<open>
  C5. When \<open>Save\<close> inside \<open>Create\<close> fails, \<open>Create\<close> returns \<open>NullID\<close> with the error of
  \<open>Save\<close> and the handle is unchanged; whenever \<open>Create\<close> returns an error the identifier
  is \<open>NullID\<close> and the handle is unchanged; and when \<open>Create\<close> succeeds the blob was saved
  under \<open>lastObjectID + 1\<close> and only then the counter was set to it.
\<close>

theorem failed_create_keeps_counter:
  "(checkOwnedByMe dr fs = None \<and> Save dr fs (lastObjectID dr + 1) data = (Some err, fs') \<longrightarrow>
      Create dr fs data = ((NullID, Some err), dr, fs'))
   \<and> (Create dr fs data = ((oid, Some err), dr', fs') \<longrightarrow> oid = NullID \<and> dr' = dr)
   \<and> (Create dr fs data = ((oid, None), dr', fs') \<longrightarrow>
        Save dr fs (lastObjectID dr + 1) data = (None, fs')
      \<and> oid = lastObjectID dr + 1
      \<and> dr' = dr\<lparr>lastObjectID := lastObjectID dr + 1\<rparr>)"
  by (auto simp: Create_def NullID_def Let_def split: option.splits prod.splits)

text \<open>
  A creation that fails because the next name is taken by a directory, and one that
  succeeds.
\<close>

theorem failed_create_keeps_counter_witness:
  "checkOwnedByMe \<lparr>lastObjectID = 1, pid = 4242, fsPath = ''/data/store''\<rparr>
      (Some (Dir [(''.lock'', File ''4242''), (''2'', Dir [])])) = None
   \<and> Save \<lparr>lastObjectID = 1, pid = 4242, fsPath = ''/data/store''\<rparr>
      (Some (Dir [(''.lock'', File ''4242''), (''2'', Dir [])])) 2 ''hello''
     = (Some (PathError ''open'' ''/data/store/2'' EISDIR),
        Some (Dir [(''.lock'', File ''4242''), (''2'', Dir [])]))
   \<and> Create \<lparr>lastObjectID = 1, pid = 4242, fsPath = ''/data/store''\<rparr>
      (Some (Dir [(''.lock'', File ''4242''), (''2'', Dir [])])) ''hello''
     = ((NullID, Some (PathError ''open'' ''/data/store/2'' EISDIR)),
        \<lparr>lastObjectID = 1, pid = 4242, fsPath = ''/data/store''\<rparr>,
        Some (Dir [(''.lock'', File ''4242''), (''2'', Dir [])]))
   \<and> Create \<lparr>lastObjectID = 1, pid = 4242, fsPath = ''/data/store''\<rparr>
      (Some (Dir [(''.lock'', File ''4242'')])) ''hello''
     = ((2, None), \<lparr>lastObjectID = 2, pid = 4242, fsPath = ''/data/store''\<rparr>,
        Some (Dir [(''.lock'', File ''4242''), (''2'', File ''hello'')]))
   \<and> Save \<lparr>lastObjectID = 1, pid = 4242, fsPath = ''/data/store''\<rparr>
      (Some (Dir [(''.lock'', File ''4242'')])) 2 ''hello''
     = (None, Some (Dir [(''.lock'', File ''4242''), (''2'', File ''hello'')]))"
proof -
  let ?dr = "\<lparr>lastObjectID = 1, pid = 4242, fsPath = ''/data/store''\<rparr>"
  let ?fs = "Some (Dir [(''.lock'', File ''4242''), (''2'', Dir [])])"
  let ?e = "PathError ''open'' ''/data/store/2'' EISDIR"
  let ?empty = "Some (Dir [(''.lock'', File ''4242'')])"
  let ?made = "Some (Dir [(''.lock'', File ''4242''), (''2'', File ''hello'')])"
  have own: "checkOwnedByMe ?dr ?fs = None"
    by (simp add: eval_defs)
  have sv: "Save ?dr ?fs 2 ''hello'' = (Some ?e, ?fs)"
    by (simp add: eval_defs)
  have cr: "Create ?dr ?fs ''hello'' = ((NullID, Some ?e), ?dr, ?fs)"
    using failed_create_keeps_counter [where dr = ?dr and fs = ?fs and data = "''hello''"
        and err = ?e and fs' = ?fs] own sv
    by simp
  have ok: "Create ?dr ?empty ''hello'' = ((2, None), \<lparr>lastObjectID = 2, pid = 4242, fsPath = ''/data/store''\<rparr>, ?made)"
    by (simp add: eval_defs)
  have sv2: "Save ?dr ?empty 2 ''hello'' = (None, ?made)"
    using failed_create_keeps_counter [where dr = ?dr and fs = ?empty and data = "''hello''"
        and oid = 2 and dr' = "\<lparr>lastObjectID = 2, pid = 4242, fsPath = ''/data/store''\<rparr>"
        and fs' = ?made] ok
    by simp
  from own sv cr ok sv2 show ?thesis
    by (intro conjI)
qed

subsection \<open>Load of a missing blob\<close>

text \<open>
  C8. On an owned handle, \<open>Load\<close> of an identifier whose file does not exist fails with
  \<open>ErrNotFound\<close> of that identifier; so it does after a successful \<open>Delete\<close> of the
  identifier; and any other error of the read is returned as it is.
\<close>

theorem load_not_found:
  "(checkOwnedByMe dr fs = None \<and> resolve fs (FormatInt oid) = Inl ENOENT \<longrightarrow>
      Load dr fs oid = ([], Some (ErrNotFound oid)))
   \<and> (Delete dr fs oid = (None, fs') \<longrightarrow> Load dr fs' oid = ([], Some (ErrNotFound oid)))
   \<and> (checkOwnedByMe dr fs = None
      \<and> ReadFile (Join (fsPath dr) (FormatInt oid)) (resolve fs (FormatInt oid)) = (data, Some e)
      \<and> \<not> IsNotExist (Some e) \<longrightarrow>
      Load dr fs oid = (data, Some e))"
proof (intro conjI impI)
  assume "checkOwnedByMe dr fs = None \<and> resolve fs (FormatInt oid) = Inl ENOENT"
  then show "Load dr fs oid = ([], Some (ErrNotFound oid))"
    by (simp add: Load_def ReadFile_def)
next
  assume d: "Delete dr fs oid = (None, fs')"
  then have own: "checkOwnedByMe dr fs = None"
    and r: "Remove fs (Join (fsPath dr) (FormatInt oid)) (FormatInt oid) = (None, fs')"
    by (auto simp: Delete_def split: option.splits)
  have "checkOwnedByMe dr fs' = None"
    using owned_after_Remove [OF r] own by simp
  moreover have "resolve fs' (FormatInt oid) = Inl ENOENT"
    by (simp add: resolve_Remove [OF r])
  ultimately show "Load dr fs' oid = ([], Some (ErrNotFound oid))"
    by (simp add: Load_def ReadFile_def)
next
  assume "checkOwnedByMe dr fs = None
      \<and> ReadFile (Join (fsPath dr) (FormatInt oid)) (resolve fs (FormatInt oid)) = (data, Some e)
      \<and> \<not> IsNotExist (Some e)"
  then show "Load dr fs oid = (data, Some e)"
    by (simp add: Load_def)
qed

text \<open>
  A missing file, a deleted file, and a name taken by a directory, which cannot be read.
\<close>

theorem load_not_found_witness:
  "checkOwnedByMe \<lparr>lastObjectID = 1, pid = 4242, fsPath = ''/data/store''\<rparr>
      (Some (Dir [(''.lock'', File ''4242''), (''1'', File ''a''), (''2'', Dir [])])) = None
   \<and> resolve (Some (Dir [(''.lock'', File ''4242''), (''1'', File ''a''), (''2'', Dir [])]))
        (FormatInt 5) = Inl ENOENT
   \<and> Load \<lparr>lastObjectID = 1, pid = 4242, fsPath = ''/data/store''\<rparr>
      (Some (Dir [(''.lock'', File ''4242''), (''1'', File ''a''), (''2'', Dir [])])) 5
     = ([], Some (ErrNotFound 5))
   \<and> Delete \<lparr>lastObjectID = 1, pid = 4242, fsPath = ''/data/store''\<rparr>
      (Some (Dir [(''.lock'', File ''4242''), (''1'', File ''a''), (''2'', Dir [])])) 1
     = (None, Some (Dir [(''.lock'', File ''4242''), (''2'', Dir [])]))
   \<and> Load \<lparr>lastObjectID = 1, pid = 4242, fsPath = ''/data/store''\<rparr>
      (Some (Dir [(''.lock'', File ''4242''), (''2'', Dir [])])) 1
     = ([], Some (ErrNotFound 1))
   \<and> \<not> IsNotExist (Some (PathError ''read'' ''/data/store/2'' EISDIR))
   \<and> Load \<lparr>lastObjectID = 1, pid = 4242, fsPath = ''/data/store''\<rparr>
      (Some (Dir [(''.lock'', File ''4242''), (''1'', File ''a''), (''2'', Dir [])])) 2
     = ([], Some (PathError ''read'' ''/data/store/2'' EISDIR))"
proof -
  let ?dr = "\<lparr>lastObjectID = 1, pid = 4242, fsPath = ''/data/store''\<rparr>"
  let ?fs = "Some (Dir [(''.lock'', File ''4242''), (''1'', File ''a''), (''2'', Dir [])])"
  let ?fs' = "Some (Dir [(''.lock'', File ''4242''), (''2'', Dir [])])"
  let ?e = "PathError ''read'' ''/data/store/2'' EISDIR"
  have own: "checkOwnedByMe ?dr ?fs = None"
    by (simp add: eval_defs)
  have r5: "resolve ?fs (FormatInt 5) = Inl ENOENT"
    by (simp add: eval_defs)
  have l5: "Load ?dr ?fs 5 = ([], Some (ErrNotFound 5))"
    using load_not_found [where dr = ?dr and fs = ?fs and oid = 5] own r5
    by simp
  have d1: "Delete ?dr ?fs 1 = (None, ?fs')"
    by (simp add: eval_defs)
  have l1: "Load ?dr ?fs' 1 = ([], Some (ErrNotFound 1))"
    using load_not_found [where dr = ?dr and fs = ?fs and oid = 1 and fs' = ?fs'] d1
    by simp
  have rd: "ReadFile (Join (fsPath ?dr) (FormatInt 2)) (resolve ?fs (FormatInt 2)) = ([], Some ?e)"
    by (simp add: eval_defs)
  have ne: "\<not> IsNotExist (Some ?e)"
    by simp
  have l2: "Load ?dr ?fs 2 = ([], Some ?e)"
    using load_not_found [where dr = ?dr and fs = ?fs and oid = 2 and data = "[]" and e = ?e]
      own rd ne
    by simp
  from own r5 l5 d1 l1 ne l2 show ?thesis
    by (intro conjI)
qed

subsection \<open>After Close\<close>

lemma step_without_lock:
  assumes "resolve fs lockFile = Inl e" and "step dr fs x = (r, dr', fs')"
  shows "err_of r \<noteq> None \<and> dr' = dr \<and> fs' = fs"
proof -
  have own: "checkOwnedByMe dr fs = Some (PathError ''open'' (Join (fsPath dr) lockFile) e)"
    using assms(1) by (rule checkOwnedByMe_missing)
  have rm: "\<exists>e'. Remove fs p lockFile = (Some e', fs)" for p
    using assms(1)
    by (auto simp: Remove_def resolve_def split: option.splits node.splits)
  show ?thesis
  proof (cases x)
    case OpClose
    with assms(2) rm [of "Join (fsPath dr) lockFile"] show ?thesis
      by (auto simp: Close_def releaseOwnership_def)
  qed (use assms(2) own in \<open>auto simp: Create_def Load_def LoadAll_def Save_def Delete_def\<close>)
qed

lemma run_without_lock:
  assumes "resolve fs lockFile = Inl e"
  shows "run dr fs ops = (rs, dr', fs') \<Longrightarrow> (\<forall>r\<in>set rs. err_of r \<noteq> None) \<and> dr' = dr \<and> fs' = fs"
proof (induction ops arbitrary: rs dr' fs')
  case Nil
  then show ?case by simp
next
  case (Cons x xs)
  obtain r dr1 fs1 where s: "step dr fs x = (r, dr1, fs1)"
    by (cases "step dr fs x") auto
  from step_without_lock [OF assms s] have r: "err_of r \<noteq> None" "dr1 = dr" "fs1 = fs"
    by auto
  obtain rs2 dr2 fs2 where t: "run dr fs xs = (rs2, dr2, fs2)"
    by (cases "run dr fs xs") auto
  from Cons.IH [OF t] Cons.prems s r t show ?case
    by auto
qed

lemma Close_ok:
  assumes "Close dr fs = (None, fs')"
  shows "resolve fs' lockFile = Inl ENOENT"
  using assms resolve_Remove [of fs "Join (fsPath dr) lockFile" lockFile fs' lockFile]
  by (simp add: Close_def releaseOwnership_def)

text \<open>
  C9. After \<open>Close\<close> succeeded the lock file is gone, so the ownership check fails, and
  every operation of every later sequence of operations through the handle (\<open>Create\<close>,
  \<open>Load\<close>, \<open>LoadAll\<close>, \<open>Save\<close>, \<open>Delete\<close>, \<open>Close\<close>) returns an error, leaving the handle and
  the file system as \<open>Close\<close> left them.
\<close>

theorem closed_handle_fails:
  assumes "Close dr fs = (None, fs')"
  shows "checkOwnedByMe dr fs' = Some (PathError ''open'' (Join (fsPath dr) lockFile) ENOENT)
    \<and> (\<forall>ops rs dr'' fs''. run dr fs' ops = (rs, dr'', fs'') \<longrightarrow>
          (\<forall>r\<in>set rs. err_of r \<noteq> None) \<and> dr'' = dr \<and> fs'' = fs')"
  using checkOwnedByMe_missing [OF Close_ok [OF assms]] run_without_lock [OF Close_ok [OF assms]]
  by blast

text \<open>
  One call of each operation after a successful \<open>Close\<close>.
\<close>

theorem closed_handle_fails_witness:
  "Close \<lparr>lastObjectID = 1, pid = 4242, fsPath = ''/data/store''\<rparr>
      (Some (Dir [(''.lock'', File ''4242''), (''1'', File ''a'')]))
     = (None, Some (Dir [(''1'', File ''a'')]))
   \<and> map err_of (fst (run \<lparr>lastObjectID = 1, pid = 4242, fsPath = ''/data/store''\<rparr>
        (Some (Dir [(''1'', File ''a'')]))
        [OpCreate ''x'', OpLoad 1, OpLoadAll, OpSave 1 ''y'', OpDelete 1, OpClose]))
     = [Some (PathError ''open'' ''/data/store/.lock'' ENOENT),
        Some (PathError ''open'' ''/data/store/.lock'' ENOENT),
        Some (PathError ''open'' ''/data/store/.lock'' ENOENT),
        Some (PathError ''open'' ''/data/store/.lock'' ENOENT),
        Some (PathError ''open'' ''/data/store/.lock'' ENOENT),
        Some (PathError ''remove'' ''/data/store/.lock'' ENOENT)]
   \<and> snd (run \<lparr>lastObjectID = 1, pid = 4242, fsPath = ''/data/store''\<rparr>
        (Some (Dir [(''1'', File ''a'')]))
        [OpCreate ''x'', OpLoad 1, OpLoadAll, OpSave 1 ''y'', OpDelete 1, OpClose])
     = (\<lparr>lastObjectID = 1, pid = 4242, fsPath = ''/data/store''\<rparr>,
        Some (Dir [(''1'', File ''a'')]))"
proof -
  let ?dr = "\<lparr>lastObjectID = 1, pid = 4242, fsPath = ''/data/store''\<rparr>"
  let ?fs = "Some (Dir [(''.lock'', File ''4242''), (''1'', File ''a'')])"
  let ?fs' = "Some (Dir [(''1'', File ''a'')])"
  let ?ops = "[OpCreate ''x'', OpLoad 1, OpLoadAll, OpSave 1 ''y'', OpDelete 1, OpClose]"
  have c: "Close ?dr ?fs = (None, ?fs')"
    by (simp add: eval_defs)
  have e: "map err_of (fst (run ?dr ?fs' ?ops))
     = [Some (PathError ''open'' ''/data/store/.lock'' ENOENT),
        Some (PathError ''open'' ''/data/store/.lock'' ENOENT),
        Some (PathError ''open'' ''/data/store/.lock'' ENOENT),
        Some (PathError ''open'' ''/data/store/.lock'' ENOENT),
        Some (PathError ''open'' ''/data/store/.lock'' ENOENT),
        Some (PathError ''remove'' ''/data/store/.lock'' ENOENT)]"
    by (simp add: eval_defs)
  obtain rs dr'' fs'' where r: "run ?dr ?fs' ?ops = (rs, dr'', fs'')"
    by (cases "run ?dr ?fs' ?ops") auto
  with closed_handle_fails [OF c] have "dr'' = ?dr \<and> fs'' = ?fs'"
    by blast
  with r have s: "snd (run ?dr ?fs' ?ops) = (?dr, ?fs')"
    by simp
  from c e s show ?thesis
    by (intro conjI)
qed

subsection \<open>Identifiers of successive creations\<close>

text \<open>
  C2, as stated, fails where the counter reaches the largest 64-bit signed integer: from
  the counter \<open>2 ^ 63 - 2\<close> two creations succeed, and the second returns \<open>- 2 ^ 63\<close>,
  which is less than the first.
\<close>

theorem create_wraps_counterexample:
  "run \<lparr>lastObjectID = 9223372036854775806, pid = 4242, fsPath = ''/data/store''\<rparr>
      (Some (Dir [(''.lock'', File ''4242'')])) [OpCreate ''a'', OpCreate ''b'']
    = ([Created 9223372036854775807 None, Created (- 9223372036854775808) None],
       \<lparr>lastObjectID = - 9223372036854775808, pid = 4242, fsPath = ''/data/store''\<rparr>,
       Some (Dir [(''.lock'', File ''4242''), (''9223372036854775807'', File ''a''),
                  (''-9223372036854775808'', File ''b'')]))
   \<and> sint (- 9223372036854775808 :: 64 word) < sint (9223372036854775807 :: 64 word)"
  by (simp add: eval_defs)

lemma sint_succ:
  fixes w :: "64 word"
  assumes "sint w < 2 ^ 63 - 1"
  shows "sint (w + 1) = sint w + 1"
proof -
  have "- (2 ^ 63) \<le> sint w"
    using sint_ge [of w] by simp
  with assms have "signed_take_bit 63 (sint w + 1) = sint w + 1"
    by (intro signed_take_bit_int_eq_self) simp_all
  then show ?thesis
    by (simp add: sint_word_ariths)
qed

lemma step_counter:
  assumes "step dr fs x = (r, dr1, fs1)"
  shows "(\<exists>oid. r = Created oid None \<and> oid = lastObjectID dr + 1 \<and> lastObjectID dr1 = oid)
       \<or> ((\<forall>oid. r \<noteq> Created oid None) \<and> dr1 = dr)"
proof (cases x)
  case (OpCreate data)
  with assms show ?thesis
    by (auto simp: Create_def Let_def split: option.splits prod.splits)
qed (use assms in \<open>auto split: prod.splits\<close>)

lemma created_ids_other:
  "\<forall>oid. r \<noteq> Created oid None \<Longrightarrow> created_ids (r # rs) = created_ids rs"
  by (cases r; cases "err_of r") auto

lemma run_created:
  "run dr fs ops = (rs, dr', fs') \<Longrightarrow>
   sint (lastObjectID dr) + int (length (created_ids rs)) < 2 ^ 63 \<Longrightarrow>
   sorted_wrt (\<lambda>a b. sint a < sint b) (created_ids rs)
   \<and> (\<forall>i\<in>set (created_ids rs). sint (lastObjectID dr) < sint i)
   \<and> sint (lastObjectID dr') = sint (lastObjectID dr) + int (length (created_ids rs))"
proof (induction ops arbitrary: dr fs rs dr' fs')
  case Nil
  then show ?case by simp
next
  case (Cons x xs)
  obtain r dr1 fs1 where s: "step dr fs x = (r, dr1, fs1)"
    by (cases "step dr fs x") auto
  obtain rs2 dr2 fs2 where t: "run dr1 fs1 xs = (rs2, dr2, fs2)"
    by (cases "run dr1 fs1 xs") auto
  from Cons.prems(1) s t have rs: "rs = r # rs2" and fin: "dr' = dr2"
    by auto
  from step_counter [OF s] show ?case
  proof
    assume "\<exists>oid. r = Created oid None \<and> oid = lastObjectID dr + 1 \<and> lastObjectID dr1 = oid"
    then obtain oid where r: "r = Created oid None" and oid: "oid = lastObjectID dr + 1"
      and l1: "lastObjectID dr1 = oid"
      by blast
    from Cons.prems(2) rs r have b: "sint (lastObjectID dr) + 1 + int (length (created_ids rs2)) < 2 ^ 63"
      by simp
    then have "sint (lastObjectID dr) < 2 ^ 63 - 1"
      by simp
    then have so: "sint oid = sint (lastObjectID dr) + 1"
      unfolding oid by (rule sint_succ)
    with b l1 have "sint (lastObjectID dr1) + int (length (created_ids rs2)) < 2 ^ 63"
      by simp
    from Cons.IH [OF t this] l1 so rs r fin show ?thesis
      by auto
  next
    assume a: "(\<forall>oid. r \<noteq> Created oid None) \<and> dr1 = dr"
    then have c: "created_ids rs = created_ids rs2"
      using rs created_ids_other by simp
    with Cons.prems(2) a have "sint (lastObjectID dr1) + int (length (created_ids rs2)) < 2 ^ 63"
      by simp
    from Cons.IH [OF t this] a c fin show ?thesis
      by simp
  qed
qed

lemma sorted_wrt_sint_distinct:
  "sorted_wrt (\<lambda>a b. sint a < sint b) (xs :: 64 word list) \<Longrightarrow> distinct xs"
  by (induction xs) auto

text \<open>
  C2, amended. Below the largest 64-bit signed integer, an operation never decreases the
  counter, a successful creation returns the counter advanced by exactly one, and any
  other operation leaves the handle unchanged. For every sequence of operations through
  one handle in which the counter plus the number of successful creations stays below
  \<open>2 ^ 63\<close>, the identifiers returned by the successful creations are strictly
  increasing, pairwise different and greater than the counter at the start, and the
  counter at the end is the counter at the start plus the number of successful creations.
\<close>

theorem created_ids_increase:
  "(step dr fs x = (r, dr1, fs1) \<and> sint (lastObjectID dr) < 2 ^ 63 - 1 \<longrightarrow>
      sint (lastObjectID dr) \<le> sint (lastObjectID dr1)
      \<and> (\<forall>oid. r = Created oid None \<longrightarrow>
            oid = lastObjectID dr1 \<and> sint (lastObjectID dr1) = sint (lastObjectID dr) + 1)
      \<and> ((\<forall>oid. r \<noteq> Created oid None) \<longrightarrow> dr1 = dr))
   \<and> (run dr fs ops = (rs, dr', fs')
      \<and> sint (lastObjectID dr) + int (length (created_ids rs)) < 2 ^ 63 \<longrightarrow>
      sorted_wrt (\<lambda>a b. sint a < sint b) (created_ids rs)
      \<and> distinct (created_ids rs)
      \<and> (\<forall>i\<in>set (created_ids rs). sint (lastObjectID dr) < sint i)
      \<and> sint (lastObjectID dr') = sint (lastObjectID dr) + int (length (created_ids rs)))"
proof -
  have step_part: "step dr fs x = (r, dr1, fs1) \<and> sint (lastObjectID dr) < 2 ^ 63 - 1 \<longrightarrow>
      sint (lastObjectID dr) \<le> sint (lastObjectID dr1)
      \<and> (\<forall>oid. r = Created oid None \<longrightarrow>
            oid = lastObjectID dr1 \<and> sint (lastObjectID dr1) = sint (lastObjectID dr) + 1)
      \<and> ((\<forall>oid. r \<noteq> Created oid None) \<longrightarrow> dr1 = dr)"
  proof
    assume a: "step dr fs x = (r, dr1, fs1) \<and> sint (lastObjectID dr) < 2 ^ 63 - 1"
    then have s: "sint (lastObjectID dr + 1) = sint (lastObjectID dr) + 1"
      by (simp add: sint_succ)
    from a step_counter [of dr fs x r dr1 fs1] s
    show "sint (lastObjectID dr) \<le> sint (lastObjectID dr1)
      \<and> (\<forall>oid. r = Created oid None \<longrightarrow>
            oid = lastObjectID dr1 \<and> sint (lastObjectID dr1) = sint (lastObjectID dr) + 1)
      \<and> ((\<forall>oid. r \<noteq> Created oid None) \<longrightarrow> dr1 = dr)"
      by auto
  qed
  have run_part: "run dr fs ops = (rs, dr', fs')
      \<and> sint (lastObjectID dr) + int (length (created_ids rs)) < 2 ^ 63 \<longrightarrow>
      sorted_wrt (\<lambda>a b. sint a < sint b) (created_ids rs)
      \<and> distinct (created_ids rs)
      \<and> (\<forall>i\<in>set (created_ids rs). sint (lastObjectID dr) < sint i)
      \<and> sint (lastObjectID dr') = sint (lastObjectID dr) + int (length (created_ids rs))"
  proof
    assume a: "run dr fs ops = (rs, dr', fs')
      \<and> sint (lastObjectID dr) + int (length (created_ids rs)) < 2 ^ 63"
    then have *: "sorted_wrt (\<lambda>a b. sint a < sint b) (created_ids rs)
      \<and> (\<forall>i\<in>set (created_ids rs). sint (lastObjectID dr) < sint i)
      \<and> sint (lastObjectID dr') = sint (lastObjectID dr) + int (length (created_ids rs))"
      using run_created by blast
    moreover from * have "distinct (created_ids rs)"
      using sorted_wrt_sint_distinct by blast
    ultimately show "sorted_wrt (\<lambda>a b. sint a < sint b) (created_ids rs)
      \<and> distinct (created_ids rs)
      \<and> (\<forall>i\<in>set (created_ids rs). sint (lastObjectID dr) < sint i)
      \<and> sint (lastObjectID dr') = sint (lastObjectID dr) + int (length (created_ids rs))"
      by simp
  qed
  from step_part run_part show ?thesis by (rule conjI)
qed

text \<open>
  Creations among other operations, some of them failing.
\<close>

theorem created_ids_increase_witness:
  "run \<lparr>lastObjectID = 7, pid = 4242, fsPath = ''/data/store''\<rparr>
      (Some (Dir [(''.lock'', File ''4242''), (''9'', Dir [])]))
      [OpCreate ''a'', OpCreate ''b'', OpDelete 8, OpLoad 8, OpCreate ''c'', OpCreate ''d'']
    = ([Created 8 None, Created 0 (Some (PathError ''open'' ''/data/store/9'' EISDIR)),
        Finished None, Loaded [] (Some (ErrNotFound 8)),
        Created 0 (Some (PathError ''open'' ''/data/store/9'' EISDIR)),
        Created 0 (Some (PathError ''open'' ''/data/store/9'' EISDIR))],
       \<lparr>lastObjectID = 8, pid = 4242, fsPath = ''/data/store''\<rparr>,
       Some (Dir [(''.lock'', File ''4242''), (''9'', Dir [])]))
   \<and> run \<lparr>lastObjectID = 7, pid = 4242, fsPath = ''/data/store''\<rparr>
      (Some (Dir [(''.lock'', File ''4242'')])) [OpCreate ''a'', OpDelete 8, OpCreate ''b'']
    = ([Created 8 None, Finished None, Created 9 None],
       \<lparr>lastObjectID = 9, pid = 4242, fsPath = ''/data/store''\<rparr>,
       Some (Dir [(''.lock'', File ''4242''), (''9'', File ''b'')]))
   \<and> sorted_wrt (\<lambda>a b. sint a < sint b) [8, 9 :: 64 word]
   \<and> distinct [8, 9 :: 64 word]
   \<and> sint (9 :: 64 word) = sint (7 :: 64 word) + 2
   \<and> step \<lparr>lastObjectID = 7, pid = 4242, fsPath = ''/data/store''\<rparr>
        (Some (Dir [(''.lock'', File ''4242'')])) (OpCreate ''a'')
    = (Created 8 None, \<lparr>lastObjectID = 8, pid = 4242, fsPath = ''/data/store''\<rparr>,
       Some (Dir [(''.lock'', File ''4242''), (''8'', File ''a'')]))
   \<and> sint (8 :: 64 word) = sint (7 :: 64 word) + 1"
proof -
  let ?dr = "\<lparr>lastObjectID = 7, pid = 4242, fsPath = ''/data/store''\<rparr>"
  let ?dr8 = "\<lparr>lastObjectID = 8, pid = 4242, fsPath = ''/data/store''\<rparr>"
  let ?dr9 = "\<lparr>lastObjectID = 9, pid = 4242, fsPath = ''/data/store''\<rparr>"
  let ?fsb = "Some (Dir [(''.lock'', File ''4242''), (''9'', Dir [])])"
  let ?fs0 = "Some (Dir [(''.lock'', File ''4242'')])"
  let ?fs9 = "Some (Dir [(''.lock'', File ''4242''), (''9'', File ''b'')])"
  let ?fs8 = "Some (Dir [(''.lock'', File ''4242''), (''8'', File ''a'')])"
  let ?ops = "[OpCreate ''a'', OpDelete 8, OpCreate ''b'']"
  let ?rs = "[Created 8 None, Finished None, Created 9 None]"
  have r1: "run ?dr ?fsb
      [OpCreate ''a'', OpCreate ''b'', OpDelete 8, OpLoad 8, OpCreate ''c'', OpCreate ''d'']
    = ([Created 8 None, Created 0 (Some (PathError ''open'' ''/data/store/9'' EISDIR)),
        Finished None, Loaded [] (Some (ErrNotFound 8)),
        Created 0 (Some (PathError ''open'' ''/data/store/9'' EISDIR)),
        Created 0 (Some (PathError ''open'' ''/data/store/9'' EISDIR))], ?dr8, ?fsb)"
    by (simp add: eval_defs)
  have r2: "run ?dr ?fs0 ?ops = (?rs, ?dr9, ?fs9)"
    by (simp add: eval_defs)
  have b2: "sint (lastObjectID ?dr) + int (length (created_ids ?rs)) < 2 ^ 63"
    by simp
  have s: "step ?dr ?fs0 (OpCreate ''a'') = (Created 8 None, ?dr8, ?fs8)"
    by (simp add: eval_defs)
  have bs: "sint (lastObjectID ?dr) < 2 ^ 63 - 1"
    by simp
  note t = created_ids_increase [where dr = ?dr and fs = ?fs0 and ops = ?ops and rs = ?rs
      and dr' = ?dr9 and fs' = ?fs9 and x = "OpCreate ''a''" and r = "Created 8 None"
      and ?dr1.0 = ?dr8 and ?fs1.0 = ?fs8]
  from t r2 b2 have "sorted_wrt (\<lambda>a b. sint a < sint b) [8, 9 :: 64 word]"
    and "distinct [8, 9 :: 64 word]" and "sint (9 :: 64 word) = sint (7 :: 64 word) + 2"
    by simp_all
  moreover from t s bs have "sint (8 :: 64 word) = sint (7 :: 64 word) + 1"
    by simp
  ultimately show ?thesis
    using r1 r2 s by (intro conjI)
qed

subsection \<open>The classification of entries by the callbacks\<close>

text \<open>
  C6, as stated, fails on signs and on size: the name \<open>-5\<close> is not the decimal text of
  a non-negative integer, is not the lock file and does not begin with a dot, and both
  callbacks accept it, with the identifier \<open>- 5\<close>, and the walk goes on past it; the name
  \<open>9223372036854775808\<close> is the decimal text of a non-negative integer and is rejected.
\<close>

theorem scan_accepts_signed_counterexample:
  "\<not> is_decimal ''-5'' \<and> Base ''/data/store/-5'' = ''-5'' \<and> ''-5'' \<noteq> lockFile
   \<and> \<not> HasPrefix ''-5'' ''.''
   \<and> LoadAll_fn ''/data/store/-5'' (Some (File ''x'')) None [] = (None, [Item (- 5) ''x''])
   \<and> getLastObjectID_fn ''/data/store/-5'' (Some (File ''x'')) None (- 9) = (None, - 5)
   \<and> walkEntries ''/data/store''
        (ReadDir [(''.lock'', File ''4242''), (''-5'', File ''x''), (''1'', File ''a'')])
        LoadAll_fn [] = (None, [Item (- 5) ''x'', Item 1 ''a''])
   \<and> is_decimal ''9223372036854775808''
   \<and> getLastObjectID_fn ''/data/store/9223372036854775808'' (Some (File ''x'')) None 0
       = (Some (ErrCorruptedContent ''/data/store/9223372036854775808''), 0)"
  by (simp add: eval_defs)

lemma getLastObjectID_fn_not_Skip:
  "fst (getLastObjectID_fn p (Some nd) None s) \<noteq> Some SkipDir"
  by (simp add: getLastObjectID_fn_def Let_def split: prod.splits option.splits)

lemma LoadAll_fn_not_Skip:
  "fst (LoadAll_fn p (Some nd) None s) \<noteq> Some SkipDir"
  by (simp add: LoadAll_fn_def Let_def split: prod.splits option.splits)

lemma walkDir_getLastObjectID_fn:
  "walkDir p nd getLastObjectID_fn s = getLastObjectID_fn p (Some nd) None s"
  by (cases nd) (simp_all add: getLastObjectID_fn_def)

lemma walkDir_LoadAll_fn:
  "walkDir p nd LoadAll_fn s = LoadAll_fn p (Some nd) None s"
  by (cases nd) (simp_all add: LoadAll_fn_def)

lemma walkEntries_stops:
  assumes direct: "\<And>p nd s. walkDir p nd fn s = fn p (Some nd) None s"
    and pre: "walkEntries path pre fn st = (None, st1)"
    and bad: "fn (Join path name) (Some d1) None st1 = (Some err, st2)"
    and ns: "err \<noteq> SkipDir"
    and nskip: "\<And>p nd s. fst (fn p (Some nd) None s) \<noteq> Some SkipDir"
  shows "walkEntries path (pre @ (name, d1) # post) fn st = (Some err, st2)"
  using pre
proof (induction pre arbitrary: st)
  case Nil
  then show ?case
    using bad ns by (simp add: direct)
next
  case (Cons a pre)
  obtain n nd where a: "a = (n, nd)"
    by (cases a) auto
  obtain r s where f: "fn (Join path n) (Some nd) None st = (r, s)"
    by (cases "fn (Join path n) (Some nd) None st") auto
  show ?case
  proof (cases r)
    case None
    with Cons a f show ?thesis
      by (simp add: direct)
  next
    case (Some e)
    with nskip [of "Join path n" nd st] f have "e \<noteq> SkipDir"
      by auto
    with Cons.prems a f Some show ?thesis
      by (simp add: direct)
  qed
qed

lemma decimal_value_ge: "n \<le> decimal_value s n"
proof (induction s arbitrary: n)
  case Nil
  show ?case by simp
next
  case (Cons c cs)
  have "n \<le> n * 10 + (case digit_val c of Some d \<Rightarrow> d | None \<Rightarrow> 0)"
    by simp
  also have "\<dots> \<le> decimal_value cs (n * 10 + (case digit_val c of Some d \<Rightarrow> d | None \<Rightarrow> 0))"
    by (rule Cons.IH)
  finally show ?case by simp
qed

lemma ParseUint_loop_Inr:
  "n < 2 ^ 64 \<Longrightarrow> ParseUint_loop s n = Inr v \<longleftrightarrow>
     list_all (\<lambda>c. digit_val c \<noteq> None) s \<and> v = decimal_value s n \<and> v < 2 ^ 64"
proof (induction s arbitrary: n)
  case Nil
  then show ?case
    by auto
next
  case (Cons c cs)
  show ?case
  proof (cases "digit_val c")
    case None
    then show ?thesis by simp
  next
    case (Some d)
    let ?m = "n * 10 + d"
    have ge: "?m \<le> decimal_value cs ?m"
      by (rule decimal_value_ge)
    show ?thesis
    proof (cases "n \<ge> (2 ^ 64 - 1) div 10 + 1 \<or> ?m > 2 ^ 64 - 1")
      case True
      then have "\<not> decimal_value cs ?m < 2 ^ 64"
        using ge by auto
      with True Some show ?thesis
        by auto
    next
      case False
      then have "?m < 2 ^ 64"
        by simp
      from Cons.IH [OF this] False Some show ?thesis
        by auto
    qed
  qed
qed


lemma ParseUint_Inr:
  "ParseUint s = Inr v \<longleftrightarrow> is_decimal s \<and> v = decimal_value s 0 \<and> v < 2 ^ 64"
  by (auto simp: ParseUint_def is_decimal_def ParseUint_loop_Inr)

lemma Atoi_accepts_iff: "snd (Atoi s) = None \<longleftrightarrow> is_int64_text s"
proof (cases s)
  case Nil
  then show ?thesis
    by (simp add: Atoi_def is_int64_text_def)
next
  case (Cons c cs)
  show ?thesis
  proof (cases "ParseUint (if c = CHR ''+'' \<or> c = CHR ''-'' then cs else s)")
    case (Inl e)
    have "\<not> (is_decimal (if c = CHR ''+'' \<or> c = CHR ''-'' then cs else s)
        \<and> decimal_value (if c = CHR ''+'' \<or> c = CHR ''-'' then cs else s) 0 < 2 ^ 64)"
    proof
      assume "is_decimal (if c = CHR ''+'' \<or> c = CHR ''-'' then cs else s)
        \<and> decimal_value (if c = CHR ''+'' \<or> c = CHR ''-'' then cs else s) 0 < 2 ^ 64"
      then have "ParseUint (if c = CHR ''+'' \<or> c = CHR ''-'' then cs else s)
          = Inr (decimal_value (if c = CHR ''+'' \<or> c = CHR ''-'' then cs else s) 0)"
        by (simp only: ParseUint_Inr)
      with Inl show False by simp
    qed
    with Inl Cons show ?thesis
      by (cases e) (auto simp: Atoi_def is_int64_text_def)
  next
    case (Inr un)
    then have "is_decimal (if c = CHR ''+'' \<or> c = CHR ''-'' then cs else s)"
      and "un = decimal_value (if c = CHR ''+'' \<or> c = CHR ''-'' then cs else s) 0"
      using ParseUint_Inr by auto
    with Inr Cons show ?thesis
      by (auto simp: Atoi_def is_int64_text_def split: if_splits)
  qed
qed

lemma Atoi_ok: "is_int64_text s \<Longrightarrow> \<exists>v. Atoi s = (v, None)"
  using Atoi_accepts_iff [of s] by (cases "Atoi s") simp

lemma Atoi_failed: "\<not> is_int64_text s \<Longrightarrow> \<exists>v e. Atoi s = (v, Some e)"
  using Atoi_accepts_iff [of s] by (cases "Atoi s") auto

lemma Atoi_decimal:
  assumes "is_decimal s" and "decimal_value s 0 < 2 ^ 63"
  shows "Atoi s = (word_of_nat (decimal_value s 0), None)"
proof -
  from assms(1) obtain c cs where s: "s = c # cs" and d: "digit_val c \<noteq> None"
    by (cases s) (auto simp: is_decimal_def)
  from d have c: "c \<noteq> CHR ''+''" "c \<noteq> CHR ''-''"
    by (auto simp: digit_val_def)
  from assms have "ParseUint s = Inr (decimal_value s 0)"
    by (simp add: ParseUint_Inr)
  with s c assms(2) show ?thesis
    by (simp add: Atoi_def)
qed

text \<open>
  C6, amended. Each callback, on an entry without an incoming error: rejects a directory
  with the corrupted-content error naming its path; skips a file whose name is the lock
  file's or begins with a dot; accepts a file whose name is the decimal text of a 64-bit
  signed integer (\<open>getLastObjectID\<close> takes the maximum, \<open>LoadAll\<close> appends the Item with
  the file's bytes); rejects a file of any other name with the corrupted-content error
  naming its path. In the walk over the entries of a directory, the first entry that the
  callback rejects ends the walk with that error, whatever entries precede and follow it.
\<close>

theorem scan_classification:
  "(IsDir nd \<longrightarrow>
      getLastObjectID_fn path (Some nd) None lastID = (Some (ErrCorruptedContent path), lastID)
    \<and> LoadAll_fn path (Some nd) None items = (Some (ErrCorruptedContent path), items))
   \<and> (\<not> IsDir nd \<and> (Base path = lockFile \<or> HasPrefix (Base path) ''.'') \<longrightarrow>
      getLastObjectID_fn path (Some nd) None lastID = (None, lastID)
    \<and> LoadAll_fn path (Some nd) None items = (None, items))
   \<and> (Base path \<noteq> lockFile \<and> \<not> HasPrefix (Base path) ''.'' \<and> is_int64_text (Base path) \<longrightarrow>
      getLastObjectID_fn path (Some (File data)) None lastID =
        (None, max_int (fst (Atoi (Base path))) lastID)
    \<and> LoadAll_fn path (Some (File data)) None items =
        (None, items @ [Item (fst (Atoi (Base path))) data]))
   \<and> (\<not> IsDir nd \<and> Base path \<noteq> lockFile \<and> \<not> HasPrefix (Base path) ''.''
      \<and> \<not> is_int64_text (Base path) \<longrightarrow>
      getLastObjectID_fn path (Some nd) None lastID = (Some (ErrCorruptedContent path), lastID)
    \<and> LoadAll_fn path (Some nd) None items = (Some (ErrCorruptedContent path), items))
   \<and> (walkEntries root pre getLastObjectID_fn lastID = (None, lastID1)
      \<and> getLastObjectID_fn (Join root name) (Some d1) None lastID1 = (Some err, lastID2) \<longrightarrow>
      walkEntries root (pre @ (name, d1) # post) getLastObjectID_fn lastID = (Some err, lastID2))
   \<and> (walkEntries root pre LoadAll_fn items = (None, items1)
      \<and> LoadAll_fn (Join root name) (Some d1) None items1 = (Some err, items2) \<longrightarrow>
      walkEntries root (pre @ (name, d1) # post) LoadAll_fn items = (Some err, items2))"
proof -
  have dir: "IsDir nd \<longrightarrow>
      getLastObjectID_fn path (Some nd) None lastID = (Some (ErrCorruptedContent path), lastID)
    \<and> LoadAll_fn path (Some nd) None items = (Some (ErrCorruptedContent path), items)"
    by (simp add: getLastObjectID_fn_def LoadAll_fn_def)
  have skip: "\<not> IsDir nd \<and> (Base path = lockFile \<or> HasPrefix (Base path) ''.'') \<longrightarrow>
      getLastObjectID_fn path (Some nd) None lastID = (None, lastID)
    \<and> LoadAll_fn path (Some nd) None items = (None, items)"
    by (auto simp: getLastObjectID_fn_def LoadAll_fn_def Let_def)
  have acc: "Base path \<noteq> lockFile \<and> \<not> HasPrefix (Base path) ''.'' \<and> is_int64_text (Base path) \<longrightarrow>
      getLastObjectID_fn path (Some (File data)) None lastID =
        (None, max_int (fst (Atoi (Base path))) lastID)
    \<and> LoadAll_fn path (Some (File data)) None items =
        (None, items @ [Item (fst (Atoi (Base path))) data])"
  proof
    assume a: "Base path \<noteq> lockFile \<and> \<not> HasPrefix (Base path) ''.'' \<and> is_int64_text (Base path)"
    then obtain v where "Atoi (Base path) = (v, None)"
      using Atoi_ok by blast
    with a show "getLastObjectID_fn path (Some (File data)) None lastID =
        (None, max_int (fst (Atoi (Base path))) lastID)
      \<and> LoadAll_fn path (Some (File data)) None items =
        (None, items @ [Item (fst (Atoi (Base path))) data])"
      by (simp add: getLastObjectID_fn_def LoadAll_fn_def Let_def ReadFile_def)
  qed
  have rej: "\<not> IsDir nd \<and> Base path \<noteq> lockFile \<and> \<not> HasPrefix (Base path) ''.''
      \<and> \<not> is_int64_text (Base path) \<longrightarrow>
      getLastObjectID_fn path (Some nd) None lastID = (Some (ErrCorruptedContent path), lastID)
    \<and> LoadAll_fn path (Some nd) None items = (Some (ErrCorruptedContent path), items)"
  proof
    assume a: "\<not> IsDir nd \<and> Base path \<noteq> lockFile \<and> \<not> HasPrefix (Base path) ''.''
      \<and> \<not> is_int64_text (Base path)"
    then obtain v e where "Atoi (Base path) = (v, Some e)"
      using Atoi_failed by blast
    with a show "getLastObjectID_fn path (Some nd) None lastID =
        (Some (ErrCorruptedContent path), lastID)
      \<and> LoadAll_fn path (Some nd) None items = (Some (ErrCorruptedContent path), items)"
      by (simp add: getLastObjectID_fn_def LoadAll_fn_def Let_def)
  qed
  have stop1: "walkEntries root pre getLastObjectID_fn lastID = (None, lastID1)
      \<and> getLastObjectID_fn (Join root name) (Some d1) None lastID1 = (Some err, lastID2) \<longrightarrow>
      walkEntries root (pre @ (name, d1) # post) getLastObjectID_fn lastID = (Some err, lastID2)"
  proof
    assume a: "walkEntries root pre getLastObjectID_fn lastID = (None, lastID1)
      \<and> getLastObjectID_fn (Join root name) (Some d1) None lastID1 = (Some err, lastID2)"
    then have "err \<noteq> SkipDir"
      using getLastObjectID_fn_not_Skip [of "Join root name" d1 lastID1] by auto
    with a show "walkEntries root (pre @ (name, d1) # post) getLastObjectID_fn lastID
        = (Some err, lastID2)"
      by (intro walkEntries_stops [where ?st1.0 = lastID1])
        (simp_all add: walkDir_getLastObjectID_fn getLastObjectID_fn_not_Skip)
  qed
  have stop2: "walkEntries root pre LoadAll_fn items = (None, items1)
      \<and> LoadAll_fn (Join root name) (Some d1) None items1 = (Some err, items2) \<longrightarrow>
      walkEntries root (pre @ (name, d1) # post) LoadAll_fn items = (Some err, items2)"
  proof
    assume a: "walkEntries root pre LoadAll_fn items = (None, items1)
      \<and> LoadAll_fn (Join root name) (Some d1) None items1 = (Some err, items2)"
    then have "err \<noteq> SkipDir"
      using LoadAll_fn_not_Skip [of "Join root name" d1 items1] by auto
    with a show "walkEntries root (pre @ (name, d1) # post) LoadAll_fn items = (Some err, items2)"
      by (intro walkEntries_stops [where ?st1.0 = items1])
        (simp_all add: walkDir_LoadAll_fn LoadAll_fn_not_Skip)
  qed
  from dir skip acc rej stop1 stop2 show ?thesis
    by (intro conjI)
qed

text \<open>
  A directory, the lock file, the file 12, the file x7, and the walk over the entries
  .lock, 1, x7 and 9, which stops at x7.
\<close>

theorem scan_classification_witness:
  "IsDir (Dir [])
   \<and> getLastObjectID_fn ''/data/store/sub'' (Some (Dir [])) None 3
      = (Some (ErrCorruptedContent ''/data/store/sub''), 3)
   \<and> LoadAll_fn ''/data/store/sub'' (Some (Dir [])) None [Item 1 ''a'']
      = (Some (ErrCorruptedContent ''/data/store/sub''), [Item 1 ''a''])
   \<and> \<not> IsDir (File ''4242'') \<and> Base ''/data/store/.lock'' = lockFile
   \<and> getLastObjectID_fn ''/data/store/.lock'' (Some (File ''4242'')) None 3 = (None, 3)
   \<and> LoadAll_fn ''/data/store/.lock'' (Some (File ''4242'')) None [Item 1 ''a'']
      = (None, [Item 1 ''a''])
   \<and> Base ''/data/store/12'' \<noteq> lockFile \<and> \<not> HasPrefix (Base ''/data/store/12'') ''.''
   \<and> is_int64_text (Base ''/data/store/12'')
   \<and> getLastObjectID_fn ''/data/store/12'' (Some (File ''x'')) None 3 = (None, 12)
   \<and> LoadAll_fn ''/data/store/12'' (Some (File ''x'')) None [Item 1 ''a'']
      = (None, [Item 1 ''a'', Item 12 ''x''])
   \<and> Base ''/data/store/x7'' \<noteq> lockFile \<and> \<not> HasPrefix (Base ''/data/store/x7'') ''.''
   \<and> \<not> is_int64_text (Base ''/data/store/x7'')
   \<and> getLastObjectID_fn ''/data/store/x7'' (Some (File ''x'')) None 3
      = (Some (ErrCorruptedContent ''/data/store/x7''), 3)
   \<and> LoadAll_fn ''/data/store/x7'' (Some (File ''x'')) None [Item 1 ''a'']
      = (Some (ErrCorruptedContent ''/data/store/x7''), [Item 1 ''a''])
   \<and> walkEntries ''/data/store'' [(''.lock'', File ''4242''), (''1'', File ''a'')]
        getLastObjectID_fn 0 = (None, 1)
   \<and> walkEntries ''/data/store''
        ([(''.lock'', File ''4242''), (''1'', File ''a'')] @ (''x7'', File ''x'') # [(''9'', File ''z'')])
        getLastObjectID_fn 0 = (Some (ErrCorruptedContent ''/data/store/x7''), 1)
   \<and> walkEntries ''/data/store'' [(''.lock'', File ''4242''), (''1'', File ''a'')]
        LoadAll_fn [] = (None, [Item 1 ''a''])
   \<and> walkEntries ''/data/store''
        ([(''.lock'', File ''4242''), (''1'', File ''a'')] @ (''x7'', File ''x'') # [(''9'', File ''z'')])
        LoadAll_fn [] = (Some (ErrCorruptedContent ''/data/store/x7''), [Item 1 ''a''])"
proof -
  let ?pre = "[(''.lock'', File ''4242''), (''1'', File ''a'')]"
  let ?bad = "ErrCorruptedContent ''/data/store/x7''"
  have b: "Base ''/data/store/.lock'' = lockFile" "Base ''/data/store/12'' = ''12''"
    "Base ''/data/store/x7'' = ''x7''" "Join ''/data/store'' ''x7'' = ''/data/store/x7''"
    by (simp_all add: eval_defs)
  have h: "IsDir (Dir [])" "\<not> IsDir (File ''4242'')" "\<not> IsDir (File ''x'')"
    "''12'' \<noteq> lockFile" "\<not> HasPrefix ''12'' ''.''" "is_int64_text ''12''"
    "''x7'' \<noteq> lockFile" "\<not> HasPrefix ''x7'' ''.''" "\<not> is_int64_text ''x7''"
    "fst (Atoi ''12'') = 12" "max_int 12 3 = (12 :: 64 word)"
    by (simp_all add: eval_defs is_int64_text_def)
  note d = scan_classification [where nd = "Dir []" and path = "''/data/store/sub''"
      and lastID = 3 and items = "[Item 1 ''a'']"]
  note l = scan_classification [where nd = "File ''4242''" and path = "''/data/store/.lock''"
      and lastID = 3 and items = "[Item 1 ''a'']"]
  note a = scan_classification [where data = "''x''" and path = "''/data/store/12''"
      and lastID = 3 and items = "[Item 1 ''a'']"]
  note r = scan_classification [where nd = "File ''x''" and path = "''/data/store/x7''"
      and lastID = 3 and items = "[Item 1 ''a'']"]
  have p1: "walkEntries ''/data/store'' ?pre getLastObjectID_fn 0 = (None, 1)"
    by (simp add: eval_defs)
  have p2: "walkEntries ''/data/store'' ?pre LoadAll_fn [] = (None, [Item 1 ''a''])"
    by (simp add: eval_defs)
  have f1: "getLastObjectID_fn ''/data/store/x7'' (Some (File ''x'')) None 1 = (Some ?bad, 1)"
    by (simp add: eval_defs)
  have f2: "LoadAll_fn ''/data/store/x7'' (Some (File ''x'')) None [Item 1 ''a'']
      = (Some ?bad, [Item 1 ''a''])"
    by (simp add: eval_defs)
  note s1 = scan_classification [where root = "''/data/store''" and pre = ?pre and lastID = 0
      and ?lastID1.0 = 1 and name = "''x7''" and ?d1.0 = "File ''x''" and err = ?bad
      and ?lastID2.0 = 1 and post = "[(''9'', File ''z'')]"]
  note s2 = scan_classification [where root = "''/data/store''" and pre = ?pre and items = "[]"
      and ?items1.0 = "[Item 1 ''a'']" and name = "''x7''" and ?d1.0 = "File ''x''"
      and err = ?bad and ?items2.0 = "[Item 1 ''a'']" and post = "[(''9'', File ''z'')]"]
  from d h have c1: "getLastObjectID_fn ''/data/store/sub'' (Some (Dir [])) None 3
      = (Some (ErrCorruptedContent ''/data/store/sub''), 3)"
    "LoadAll_fn ''/data/store/sub'' (Some (Dir [])) None [Item 1 ''a'']
      = (Some (ErrCorruptedContent ''/data/store/sub''), [Item 1 ''a''])"
    by simp_all
  from l h b have c2: "getLastObjectID_fn ''/data/store/.lock'' (Some (File ''4242'')) None 3
      = (None, 3)"
    "LoadAll_fn ''/data/store/.lock'' (Some (File ''4242'')) None [Item 1 ''a'']
      = (None, [Item 1 ''a''])"
    by simp_all
  from a h b have c3: "getLastObjectID_fn ''/data/store/12'' (Some (File ''x'')) None 3
      = (None, 12)"
    "LoadAll_fn ''/data/store/12'' (Some (File ''x'')) None [Item 1 ''a'']
      = (None, [Item 1 ''a'', Item 12 ''x''])"
    by simp_all
  from r h b have c4: "getLastObjectID_fn ''/data/store/x7'' (Some (File ''x'')) None 3
      = (Some ?bad, 3)"
    "LoadAll_fn ''/data/store/x7'' (Some (File ''x'')) None [Item 1 ''a'']
      = (Some ?bad, [Item 1 ''a''])"
    by simp_all
  from s1 p1 f1 b have c5: "walkEntries ''/data/store''
        (?pre @ (''x7'', File ''x'') # [(''9'', File ''z'')]) getLastObjectID_fn 0
      = (Some ?bad, 1)"
    by simp
  from s2 p2 f2 b have c6: "walkEntries ''/data/store''
        (?pre @ (''x7'', File ''x'') # [(''9'', File ''z'')]) LoadAll_fn []
      = (Some ?bad, [Item 1 ''a''])"
    by simp
  from h b c1 c2 c3 c4 p1 c5 p2 c6 show ?thesis
    by simp
qed

end
